theory Spec2Isabelle
  imports Complex_Main
begin

section \<open>Python exceptions as values\<close>

text \<open>
  Every exception the modelled functions can raise is a constructor of \<open>error\<close>;
  a function that may raise returns \<open>error + 'a\<close> with \<open>Inl\<close> for the exception.
  The specification's \<open>PairNotFound\<close> is the \<open>ValueError\<close> that Python's
  \<open>list.index\<close> raises, and its \<open>UnexpectedAuxiliaryDataset\<close> is the
  \<open>RuntimeError\<close> raised by \<open>separate_pol_and_bl\<close>.
\<close>

datatype error = ValueError | IndexError | RuntimeError | NameError | TypeError | InvalidAxis

definition bind_err :: "error + 'a \<Rightarrow> ('a \<Rightarrow> error + 'b) \<Rightarrow> error + 'b" where
  "bind_err m f = (case m of Inl e \<Rightarrow> Inl e | Inr x \<Rightarrow> f x)"

text \<open>A list comprehension whose body may raise: the first failure is the result.\<close>

fun map_err :: "('a \<Rightarrow> error + 'b) \<Rightarrow> 'a list \<Rightarrow> error + 'b list" where
  "map_err f [] = Inr []"
| "map_err f (x # xs) =
     (case f x of
        Inl e \<Rightarrow> Inl e
      | Inr y \<Rightarrow> (case map_err f xs of Inl e \<Rightarrow> Inl e | Inr ys \<Rightarrow> Inr (y # ys)))"

text \<open>Python's \<open>list.index\<close>: the first position holding the value, else ValueError.\<close>

fun index_from :: "nat \<Rightarrow> 'a list \<Rightarrow> 'a \<Rightarrow> error + nat" where
  "index_from k [] v = Inl ValueError"
| "index_from k (x # xs) v = (if x = v then Inr k else index_from (Suc k) xs v)"

definition py_index :: "'a list \<Rightarrow> 'a \<Rightarrow> error + nat" where
  "py_index xs v = index_from 0 xs v"

text \<open>Indexing a sequence at a non-negative position; out of range raises IndexError.\<close>

definition py_get :: "'a list \<Rightarrow> nat \<Rightarrow> error + 'a" where
  "py_get xs i = (if i < length xs then Inr (xs ! i) else Inl IndexError)"

section \<open>utils/multiscale.py\<close>

text \<open>
  A numpy array is its shape and its elements in row-major order. Elements are exact
  reals: the claims about this module are stated in exact arithmetic, so rounding is
  not modelled and \<open>phi.astype(a.dtype)\<close> is the identity. The functions of numpy and
  scipy that the module calls (\<open>scipy.ndimage.convolve1d\<close> with \<open>mode='reflect'\<close>,
  \<open>scipy.ndimage.median_filter\<close>, \<open>numpy.median\<close>) are not code of the repository;
  they are the fields of a record that every function of the module takes.
\<close>

record ndarray =
  shape :: "nat list"
  elems :: "real list"

record numlib =
  convolve1d :: "ndarray \<Rightarrow> real list \<Rightarrow> nat \<Rightarrow> ndarray"
  median_filter :: "ndarray \<Rightarrow> int \<Rightarrow> ndarray"
  median :: "real list \<Rightarrow> real"

text \<open>Element-wise \<open>a - b\<close> and \<open>a + b\<close> of two arrays of one shape.\<close>

definition arr_sub :: "ndarray \<Rightarrow> ndarray \<Rightarrow> ndarray" where
  "arr_sub a b = \<lparr>shape = shape a, elems = map2 (-) (elems a) (elems b)\<rparr>"

definition arr_add :: "ndarray \<Rightarrow> ndarray \<Rightarrow> ndarray" where
  "arr_add a b = \<lparr>shape = shape a, elems = map2 (+) (elems a) (elems b)\<rparr>"

text \<open>The element-wise sum of a non-empty list of arrays.\<close>

definition arr_sum :: "ndarray list \<Rightarrow> ndarray" where
  "arr_sum W = foldr arr_add (butlast W) (last W)"

text \<open>\<open>_phi\<close>, the default spline wavelet scaling function.\<close>

definition phi0 :: "real list" where
  "phi0 = [1/16, 1/4, 3/8, 1/4, 1/16]"

text \<open>\<open>MAD(a)\<close>: \<open>np.median(np.abs(a - np.median(a))) / 0.6745\<close>.\<close>

definition MAD :: "numlib \<Rightarrow> ndarray \<Rightarrow> real" where
  "MAD L a = median L (map (\<lambda>x. \<bar>x - median L (elems a)\<bar>) (elems a)) / (6745 / 10000)"

text \<open>
  \<open>up_sampling\<close> of the one-dimensional filter: an array of \<open>2 * n - 1\<close> zeros whose
  even positions receive the input. For an empty input \<open>np.zeros\<close> is asked for a
  negative dimension and raises ValueError.
\<close>

fun interleave0 :: "real list \<Rightarrow> real list" where
  "interleave0 [] = []"
| "interleave0 [x] = [x]"
| "interleave0 (x # y # ys) = x # 0 # interleave0 (y # ys)"

definition up_sampling :: "real list \<Rightarrow> error + real list" where
  "up_sampling a = (if a = [] then Inl ValueError else Inr (interleave0 a))"

text \<open>\<open>convolve\<close>: one \<open>convolve1d\<close> along every axis in turn.\<close>

definition convolve :: "numlib \<Rightarrow> ndarray \<Rightarrow> real list \<Rightarrow> ndarray" where
  "convolve L a phi = fold (\<lambda>ax a'. convolve1d L a' phi ax) [0 ..< length (shape a)] a"

text \<open>
  The loop of \<open>starlet_transform\<close> over \<open>li\<close> in \<open>xrange(level)\<close>, on the state
  \<open>(phi, a, W)\<close>. Every iteration ends with \<open>a = approx\<close>, so the \<open>approx\<close> appended
  after a loop of at least one iteration is the final \<open>a\<close>.
\<close>

fun starlet_loop ::
  "numlib \<Rightarrow> bool \<Rightarrow> bool \<Rightarrow> nat list \<Rightarrow> real list \<times> ndarray \<times> ndarray list
    \<Rightarrow> error + real list \<times> ndarray \<times> ndarray list" where
  "starlet_loop L gen2 approx_only [] st = Inr st"
| "starlet_loop L gen2 approx_only (li # lis) (phi, a, W) =
     (case (if li > 0 then up_sampling phi else Inr phi) of
        Inl e \<Rightarrow> Inl e
      | Inr phi' \<Rightarrow>
          (let approx = convolve L a phi';
               W' = (if \<not> approx_only
                     then (if gen2 then W @ [arr_sub a (convolve L approx phi')]
                           else W @ [arr_sub a approx])
                     else W)
           in starlet_loop L gen2 approx_only lis (phi', approx, W')))"

text \<open>
  \<open>starlet_transform(a, level, gen2, approx_only, phi)\<close>. With \<open>level = None\<close> the
  first statement reads the name \<open>input_image\<close>, which is bound nowhere in the module.
\<close>

definition starlet_transform ::
  "numlib \<Rightarrow> ndarray \<Rightarrow> int option \<Rightarrow> bool \<Rightarrow> bool \<Rightarrow> real list \<Rightarrow> error + ndarray list" where
  "starlet_transform L a level gen2 approx_only phi =
     (case level of
        None \<Rightarrow> Inl NameError
      | Some lv \<Rightarrow>
          if lv \<le> 0 then Inr [a]
          else (case starlet_loop L gen2 approx_only [0 ..< nat lv] (phi, a, []) of
                  Inl e \<Rightarrow> Inl e
                | Inr (phi', a', W) \<Rightarrow> Inr (W @ [a'])))"

text \<open>\<open>xs[0]\<close> of a returned list.\<close>

definition first :: "error + ndarray list \<Rightarrow> error + ndarray" where
  "first r = (case r of Inl e \<Rightarrow> Inl e | Inr W \<Rightarrow> py_get W 0)"

definition starlet_smooth :: "numlib \<Rightarrow> ndarray \<Rightarrow> int option \<Rightarrow> real list \<Rightarrow> error + ndarray" where
  "starlet_smooth L a level phi = first (starlet_transform L a level False True phi)"

definition starlet_detrend :: "numlib \<Rightarrow> ndarray \<Rightarrow> int option \<Rightarrow> real list \<Rightarrow> error + ndarray" where
  "starlet_detrend L a level phi =
     (case starlet_smooth L a level phi of Inl e \<Rightarrow> Inl e | Inr s \<Rightarrow> Inr (arr_sub a s))"

text \<open>The loop of \<open>multiscale_median_transform\<close>, on the state \<open>(scale, a, W)\<close>.\<close>

fun mmt_loop ::
  "numlib \<Rightarrow> bool \<Rightarrow> nat list \<Rightarrow> int \<times> ndarray \<times> ndarray list \<Rightarrow> int \<times> ndarray \<times> ndarray list" where
  "mmt_loop L approx_only [] st = st"
| "mmt_loop L approx_only (li # lis) (scale, a, W) =
     (let scale' = (if li > 0 then scale * 2 else scale);
          approx = median_filter L a (2 * scale' + 1);
          W' = (if \<not> approx_only then W @ [arr_sub a approx] else W)
      in mmt_loop L approx_only lis (scale', approx, W'))"

definition multiscale_median_transform ::
  "numlib \<Rightarrow> ndarray \<Rightarrow> int option \<Rightarrow> int \<Rightarrow> bool \<Rightarrow> error + ndarray list" where
  "multiscale_median_transform L a level scale approx_only =
     (case level of
        None \<Rightarrow> Inl NameError
      | Some lv \<Rightarrow>
          if lv \<le> 0 then Inr [a]
          else (case mmt_loop L approx_only [0 ..< nat lv] (scale, a, []) of
                  (scale', a', W) \<Rightarrow> Inr (W @ [a'])))"

definition multiscale_median_smooth :: "numlib \<Rightarrow> ndarray \<Rightarrow> int option \<Rightarrow> int \<Rightarrow> error + ndarray" where
  "multiscale_median_smooth L a level scale =
     first (multiscale_median_transform L a level scale True)"

definition multiscale_median_detrend :: "numlib \<Rightarrow> ndarray \<Rightarrow> int option \<Rightarrow> int \<Rightarrow> error + ndarray" where
  "multiscale_median_detrend L a level scale =
     (case multiscale_median_smooth L a level scale of
        Inl e \<Rightarrow> Inl e | Inr s \<Rightarrow> Inr (arr_sub a s))"

text \<open>
  The loop of \<open>median_wavelet_transform\<close>, on the state \<open>(scale, a, W)\<close>: the median
  filter, the residual \<open>w\<close> with its entries above \<open>tau * MAD(w)\<close> set to zero and
  added back, then \<open>starlet_smooth\<close> at level \<open>li + 1\<close>.
\<close>

fun mwt_loop ::
  "numlib \<Rightarrow> real \<Rightarrow> bool \<Rightarrow> real list \<Rightarrow> nat list \<Rightarrow> int \<times> ndarray \<times> ndarray list
     \<Rightarrow> error + int \<times> ndarray \<times> ndarray list" where
  "mwt_loop L tau approx_only phi [] st = Inr st"
| "mwt_loop L tau approx_only phi (li # lis) (scale, a, W) =
     (let scale' = (if li > 0 then scale * 2 else scale);
          approx0 = median_filter L a (2 * scale' + 1);
          w = arr_sub a approx0;
          th = tau * MAD L w;
          w' = w\<lparr>elems := map (\<lambda>x. if \<bar>x\<bar> > th then 0 else x) (elems w)\<rparr>;
          approx1 = arr_add approx0 w'
      in (case starlet_smooth L approx1 (Some (int li + 1)) phi of
            Inl e \<Rightarrow> Inl e
          | Inr approx \<Rightarrow>
              mwt_loop L tau approx_only phi lis
                (scale', approx, if \<not> approx_only then W @ [arr_sub a approx] else W)))"

definition median_wavelet_transform ::
  "numlib \<Rightarrow> ndarray \<Rightarrow> int option \<Rightarrow> int \<Rightarrow> real \<Rightarrow> bool \<Rightarrow> real list \<Rightarrow> error + ndarray list" where
  "median_wavelet_transform L a level scale tau approx_only phi =
     (case level of
        None \<Rightarrow> Inl NameError
      | Some lv \<Rightarrow>
          if lv \<le> 0 then Inr [a]
          else (case mwt_loop L tau approx_only phi [0 ..< nat lv] (scale, a, []) of
                  Inl e \<Rightarrow> Inl e
                | Inr (scale', a', W) \<Rightarrow> Inr (W @ [a'])))"

definition median_wavelet_smooth ::
  "numlib \<Rightarrow> ndarray \<Rightarrow> int option \<Rightarrow> int \<Rightarrow> real \<Rightarrow> real list \<Rightarrow> error + ndarray" where
  "median_wavelet_smooth L a level scale tau phi =
     first (median_wavelet_transform L a level scale tau True phi)"

definition median_wavelet_detrend ::
  "numlib \<Rightarrow> ndarray \<Rightarrow> int option \<Rightarrow> int \<Rightarrow> real \<Rightarrow> real list \<Rightarrow> error + ndarray" where
  "median_wavelet_detrend L a level scale tau phi =
     (case median_wavelet_smooth L a level scale tau phi of
        Inl e \<Rightarrow> Inl e | Inr s \<Rightarrow> Inr (arr_sub a s))"


subsection \<open>A one-dimensional instance of the library\<close>

text \<open>
  To run the transforms on concrete arrays: reflect-mode convolution and median filter
  along the single axis of a one-dimensional array (the input is extended by
  reflecting about the edge of its last element), and the median of a list.
\<close>

definition reflect_pos :: "int \<Rightarrow> nat \<Rightarrow> nat" where
  "reflect_pos p n =
     (let q = p mod (2 * int n) in nat (if q < int n then q else 2 * int n - 1 - q))"

definition convolve1d_reflect :: "ndarray \<Rightarrow> real list \<Rightarrow> nat \<Rightarrow> ndarray" where
  "convolve1d_reflect a w ax =
     a\<lparr>elems := map (\<lambda>i. sum_list (map (\<lambda>j. w ! j *
                        elems a ! reflect_pos (int i + int (length w div 2) - int j) (length (elems a)))
                      [0 ..< length w]))
                 [0 ..< length (elems a)]\<rparr>"

definition median_list :: "real list \<Rightarrow> real" where
  "median_list xs =
     (let s = sort xs; n = length s in
      if n = 0 then 0
      else if odd n then s ! (n div 2) else (s ! (n div 2 - 1) + s ! (n div 2)) / 2)"

definition median_filter_reflect :: "ndarray \<Rightarrow> int \<Rightarrow> ndarray" where
  "median_filter_reflect a sz =
     a\<lparr>elems := map (\<lambda>i. median_list (map (\<lambda>j. elems a !
                        reflect_pos (int i + int j - sz div 2) (length (elems a)))
                      [0 ..< nat sz]))
                 [0 ..< length (elems a)]\<rparr>"

definition lib1d :: numlib where
  "lib1d = \<lparr>convolve1d = convolve1d_reflect, median_filter = median_filter_reflect,
            median = median_list\<rparr>"

text \<open>
  What the theorems ask of \<open>convolve1d\<close>: its result has the shape of its input, as
  the result of every filter of \<open>scipy.ndimage\<close> has.
\<close>

definition same_size :: "ndarray \<Rightarrow> ndarray \<Rightarrow> bool" where
  "same_size a b = (shape a = shape b \<and> length (elems a) = length (elems b))"

definition keeps_shape :: "numlib \<Rightarrow> bool" where
  "keeps_shape L = (\<forall>a w ax. same_size (convolve1d L a w ax) a)"

section \<open>timestream/raw_timestream.py\<close>

subsection \<open>Arrays of visibilities\<close>

text \<open>
  The main data of a raw timestream is a three-dimensional array over (time, frequency,
  baseline), that of a separated timestream a four-dimensional one over (time,
  frequency, polarization, baseline). An array is its extents and its element function;
  only the elements at positions inside the extents are data. The model is of one
  process holding the whole array.
\<close>

record 'a arr3 =
  dim0 :: nat
  dim1 :: nat
  dim2 :: nat
  at3 :: "nat \<Rightarrow> nat \<Rightarrow> nat \<Rightarrow> 'a"

record 'a arr4 =
  len0 :: nat
  len1 :: nat
  len2 :: nat
  len3 :: nat
  at4 :: "nat \<Rightarrow> nat \<Rightarrow> nat \<Rightarrow> nat \<Rightarrow> 'a"

text \<open>A dataset other than the ones the operations below read: common or distributed.\<close>

datatype dset_kind = Common | Distributed

record dataset =
  kind :: dset_kind
  content :: "real list"
  dset_attrs :: "(string \<times> string) list"

text \<open>
  The container \<open>RawTimestream\<close>. The datasets that the modelled methods read are
  fields of their own; \<open>other_datasets\<close> are the remaining ones, in iteration order.
  The four dictionaries that classify dataset names, and the current distribution axis,
  are properties that the container inherits from classes outside the sources.
\<close>

record raw_timestream =
  vis :: "complex arr3"
  vis_mask :: "bool arr3"
  freq :: "real list"
  feedno :: "int list"
  channo :: "(int \<times> int) list"
  blorder :: "(int \<times> int) list"
  main_data_dist_axis :: nat
  attrs :: "(string \<times> string) list"
  other_datasets :: "(string \<times> dataset) list"
  main_axes_ordered_datasets :: "(string \<times> nat option list) list"
  time_ordered_datasets :: "(string \<times> nat option list) list"
  feed_ordered_datasets :: "(string \<times> nat option list) list"
  bl_ordered_datasets :: "string list"

text \<open>The container \<open>Timestream\<close> that \<open>separate_pol_and_bl\<close> creates and fills.\<close>

record timestream =
  ts_vis :: "complex arr4"
  ts_vis_mask :: "bool arr4"
  ts_pol :: "string list"
  ts_blorder :: "(int \<times> int) list"
  ts_freq :: "real list"
  ts_feedno :: "int list"
  ts_dist_axis :: nat
  ts_attrs :: "(string \<times> string) list"
  ts_datasets :: "(string \<times> dataset) list"

definition main_data_axes :: "string list" where
  "main_data_axes = [''time'', ''frequency'', ''baseline'']"

definition time_ordered_attrs :: "string list" where
  "time_ordered_attrs = [''obstime'', ''sec1970'']"

subsection \<open>feed_select\<close>

text \<open>
  The argument \<open>value\<close>: a tuple of one to three integers or \<open>None\<close> that becomes a
  slice, a list of feed numbers, or anything else.
\<close>

datatype sel_value = Tuple "int option list" | List "int list" | Other

text \<open>
  \<open>xs[slice(*value)]\<close> for a list of length \<open>n\<close>: the positions Python's slice selects,
  in order. \<open>slice()\<close> of no or more than three arguments raises TypeError, a zero step
  ValueError.
\<close>

definition clamp_bound :: "int option \<Rightarrow> int \<Rightarrow> int \<Rightarrow> int \<Rightarrow> int \<Rightarrow> int" where
  "clamp_bound v n lower upper dflt =
     (case v of
        None \<Rightarrow> dflt
      | Some x \<Rightarrow> if x < 0 then max (x + n) lower else min x upper)"

definition slice_positions :: "int option \<Rightarrow> int option \<Rightarrow> int option \<Rightarrow> nat \<Rightarrow> error + nat list" where
  "slice_positions start stop step len =
     (let st = (case step of None \<Rightarrow> 1 | Some s \<Rightarrow> s); n = int len in
      if st = 0 then Inl ValueError
      else
        (let lower = (if st > 0 then 0 else - 1);
             upper = (if st > 0 then n else n - 1);
             a = clamp_bound start n lower upper (if st < 0 then upper else lower);
             b = clamp_bound stop n lower upper (if st < 0 then lower else upper);
             cnt = (if st > 0 then (if a < b then (b - a - 1) div st + 1 else 0)
                    else (if b < a then (a - b - 1) div (- st) + 1 else 0))
         in Inr (map (\<lambda>k. nat (a + int k * st)) [0 ..< nat cnt])))"

definition py_slice :: "int option list \<Rightarrow> 'a list \<Rightarrow> error + 'a list" where
  "py_slice value xs =
     (case (case value of
              [stop] \<Rightarrow> slice_positions None stop None (length xs)
            | [start, stop] \<Rightarrow> slice_positions start stop None (length xs)
            | [start, stop, step] \<Rightarrow> slice_positions start stop step (length xs)
            | _ \<Rightarrow> Inl TypeError) of
        Inl e \<Rightarrow> Inl e
      | Inr ps \<Rightarrow> Inr (map (\<lambda>p. xs ! p) ps))"

text \<open>\<open>np.intersect1d(feedno, value)\<close>: the sorted distinct common values.\<close>

definition intersect1d :: "int list \<Rightarrow> int list \<Rightarrow> int list" where
  "intersect1d xs ys = sort (remdups (filter (\<lambda>x. x \<in> set ys) xs))"

definition select_feeds :: "int list \<Rightarrow> sel_value \<Rightarrow> error + int list" where
  "select_feeds fno value =
     (case value of
        Tuple v \<Rightarrow> py_slice v fno
      | List l \<Rightarrow> Inr (intersect1d fno l)
      | Other \<Rightarrow> Inl ValueError)"

text \<open>\<open>itertools.combinations(xs, 2)\<close> and \<open>combinations_with_replacement(xs, 2)\<close>.\<close>

fun combinations2 :: "'a list \<Rightarrow> ('a \<times> 'a) list" where
  "combinations2 [] = []"
| "combinations2 (x # xs) = map (Pair x) xs @ combinations2 xs"

fun combinations_with_replacement2 :: "'a list \<Rightarrow> ('a \<times> 'a) list" where
  "combinations_with_replacement2 [] = []"
| "combinations_with_replacement2 (x # xs) =
     map (Pair x) (x # xs) @ combinations_with_replacement2 xs"

text \<open>\<open>channo[feedno.index(fd)]\<close>, the two channels of a feed.\<close>

definition feed_channels :: "int list \<Rightarrow> (int \<times> int) list \<Rightarrow> int \<Rightarrow> error + int \<times> int" where
  "feed_channels fno chn fd = bind_err (py_index fno fd) (py_get chn)"

text \<open>
  The channel pairs of \<open>feed_select\<close>: Python sets of one or two channels, appended in
  the order of the three loops.
\<close>

definition auto_pairs :: "int list \<Rightarrow> (int \<times> int) list \<Rightarrow> int \<Rightarrow> error + int set list" where
  "auto_pairs fno chn fd =
     bind_err (feed_channels fno chn fd) (\<lambda>(ch1, ch2). Inr [{ch1}, {ch2}, {ch1, ch2}])"

definition cross_pairs :: "int list \<Rightarrow> (int \<times> int) list \<Rightarrow> int \<times> int \<Rightarrow> error + int set list" where
  "cross_pairs fno chn fds =
     bind_err (feed_channels fno chn (fst fds)) (\<lambda>(ch1, ch2).
     bind_err (feed_channels fno chn (snd fds)) (\<lambda>(ch3, ch4).
       Inr [{ch1, ch3}, {ch1, ch4}, {ch2, ch3}, {ch2, ch4}]))"

definition channel_pairs ::
  "int list \<Rightarrow> (int \<times> int) list \<Rightarrow> int list \<Rightarrow> string \<Rightarrow> error + int set list" where
  "channel_pairs fno chn feeds corr =
     (if corr = ''auto'' then
        bind_err (map_err (auto_pairs fno chn) feeds) (\<lambda>ps. Inr (concat ps))
      else if corr = ''cross'' then
        bind_err (map_err (cross_pairs fno chn) (combinations2 feeds)) (\<lambda>ps. Inr (concat ps))
      else if corr = ''all'' then
        bind_err (map_err (cross_pairs fno chn) (combinations_with_replacement2 feeds))
          (\<lambda>ps. Inr (concat ps))
      else Inl ValueError)"

text \<open>
  What \<open>feed_select\<close> leaves in the container: the index list handed to
  \<open>data_select('baseline', indices)\<close>, \<open>_feed_select\<close> and \<open>_channel_select\<close>.
\<close>

record selection =
  baseline_select :: "nat list"
  feed_sel :: "int list"
  channel_sel :: "(int \<times> int) list"

text \<open>
  \<open>feed_select(value, corr)\<close> on the \<open>feedno\<close>, \<open>channo\<close> and \<open>blorder\<close> datasets of
  the first input file. The result \<open>None\<close> is the early return that selects nothing.
  The baseline order is turned into a list of sets, and each channel pair, a set, is
  looked up with \<open>list.index\<close>.
\<close>

definition feed_select ::
  "int list \<Rightarrow> (int \<times> int) list \<Rightarrow> (int \<times> int) list \<Rightarrow> sel_value \<Rightarrow> string
     \<Rightarrow> error + selection option" where
  "feed_select fno chn blo value corr =
     (if value = Tuple [Some 0, None] \<and> corr = ''all'' then Inr None
      else
        bind_err (select_feeds fno value) (\<lambda>feeds.
        bind_err (channel_pairs fno chn feeds corr) (\<lambda>chps.
        bind_err (map_err (py_index (map (\<lambda>(a, b). {a, b}) blo)) chps) (\<lambda>inds.
        bind_err (map_err (feed_channels fno chn) feeds) (\<lambda>chsel.
          Inr (Some \<lparr>baseline_select = sort (remdups inds),
                     feed_sel = feeds, channel_sel = chsel\<rparr>))))))"


text \<open>The channels of a feed whose lookup succeeds.\<close>

definition chs_of :: "int list \<Rightarrow> (int \<times> int) list \<Rightarrow> int \<Rightarrow> int \<times> int" where
  "chs_of fno chn fd = (case feed_channels fno chn fd of Inr c \<Rightarrow> c | Inl e \<Rightarrow> (0, 0))"

text \<open>
  Position \<open>k\<close> is the first of a baseline order that holds the pair in either
  orientation.
\<close>

definition either_at :: "(int \<times> int) list \<Rightarrow> int \<times> int \<Rightarrow> nat \<Rightarrow> bool" where
  "either_at blo p k =
     (k < length blo \<and> (blo ! k = p \<or> blo ! k = (snd p, fst p))
      \<and> (\<forall>k' < k. blo ! k' \<noteq> p \<and> blo ! k' \<noteq> (snd p, fst p)))"

text \<open>
  The scenario of the specification: feeds 1, 2, 3 with channels (0, 1), (2, 3), (4, 5)
  and its representative baseline order, which holds the pair (1, 2) only as (2, 1).
\<close>

definition scenario_feedno :: "int list" where
  "scenario_feedno = [1, 2, 3]"

definition scenario_channo :: "(int \<times> int) list" where
  "scenario_channo = [(0, 1), (2, 3), (4, 5)]"

definition scenario_blorder :: "(int \<times> int) list" where
  "scenario_blorder =
     [(0, 0), (0, 2), (0, 4), (2, 2), (2, 4), (4, 4), (1, 1), (1, 3), (1, 5), (3, 3), (3, 5),
      (5, 5), (0, 1), (0, 3), (0, 5), (2, 1), (2, 3)]"

subsection \<open>separate_pol_and_bl\<close>

text \<open>
  Modelled from the spec: \<open>redistribute(axis)\<close> is a method of the container base
  class, which is not among the sources. By the specification it makes \<open>axis\<close> the
  distribution axis of the main dataset, fails with \<open>InvalidAxis\<close> when \<open>axis\<close> is
  not one of the main dataset's axes, and preserves the contents of every dataset.
\<close>

definition redistribute :: "raw_timestream \<Rightarrow> nat \<Rightarrow> error + raw_timestream" where
  "redistribute rt axis =
     (if axis < length main_data_axes then Inr (rt\<lparr>main_data_dist_axis := axis\<rparr>)
      else Inl InvalidAxis)"

text \<open>
  The comprehension \<open>[(xs[i], ys[j]) for i in xrange(n) for j in xrange(i, n)]\<close>
  that builds the four lists of channel pairs and the new baseline order.
\<close>

definition bl_pairs :: "'a list \<Rightarrow> 'a list \<Rightarrow> nat \<Rightarrow> ('a \<times> 'a) list" where
  "bl_pairs xs ys n = [(xs ! i, ys ! j). i \<leftarrow> [0 ..< n], j \<leftarrow> [i ..< n]]"

text \<open>
  \<open>[self['channo'][feedno.index(fd)][c] for fd in feedno]\<close>, where \<open>feedno\<close> is the
  sorted list of feed numbers and \<open>c\<close> is 0 for the x channels and 1 for the y
  channels: the row of \<open>channo\<close> at the position of the feed in the sorted list.
\<close>

definition chans_of_feeds ::
  "int list \<Rightarrow> (int \<times> int) list \<Rightarrow> (int \<times> int \<Rightarrow> int) \<Rightarrow> error + int list" where
  "chans_of_feeds fno chn c =
     map_err (\<lambda>fd. bind_err (bind_err (py_index fno fd) (py_get chn)) (\<lambda>row. Inr (c row))) fno"

text \<open>
  \<open>_get_ind(chp)\<close>: the pair is looked up in the baseline order; on ValueError it is
  looked up in the baseline order with every pair reversed, and the flag is set.
\<close>

definition get_ind :: "(int \<times> int) list \<Rightarrow> (int \<times> int) list \<Rightarrow> int \<times> int \<Rightarrow> error + bool \<times> nat" where
  "get_ind blo conj_blo chp =
     (case py_index blo chp of
        Inr k \<Rightarrow> Inr (False, k)
      | Inl e \<Rightarrow>
          if e = ValueError
          then (case py_index conj_blo chp of Inr k \<Rightarrow> Inr (True, k) | Inl e' \<Rightarrow> Inl e')
          else Inl e)"

text \<open>\<open>rvis[:, :, inds]\<close>: an index outside the baseline axis raises IndexError.\<close>

definition take_bl :: "'a arr3 \<Rightarrow> nat list \<Rightarrow> error + 'a arr3" where
  "take_bl a inds =
     (if list_all (\<lambda>i. i < dim2 a) inds
      then Inr \<lparr>dim0 = dim0 a, dim1 = dim1 a, dim2 = length inds,
                at3 = (\<lambda>t f k. at3 a t f (inds ! k))\<rparr>
      else Inl IndexError)"

text \<open>\<open>np.where(cj, x.conj(), x)\<close>, the flags broadcast along the last axis.\<close>

definition where_conj :: "bool list \<Rightarrow> complex arr3 \<Rightarrow> complex arr3" where
  "where_conj cj x = x\<lparr>at3 := (\<lambda>t f k. if cj ! k then cnj (at3 x t f k) else at3 x t f k)\<rparr>"

text \<open>
  The array of shape \<open>rvis.shape[:2] + (4, n)\<close> whose slices \<open>[:, :, 0]\<close> to
  \<open>[:, :, 3]\<close> are assigned the four gathered arrays.
\<close>

definition stack_pol :: "nat \<Rightarrow> nat \<Rightarrow> nat \<Rightarrow> 'a arr3 \<Rightarrow> 'a arr3 \<Rightarrow> 'a arr3 \<Rightarrow> 'a arr3 \<Rightarrow> 'a arr4" where
  "stack_pol n0 n1 n xx yy xy yx =
     \<lparr>len0 = n0, len1 = n1, len2 = 4, len3 = n,
      at4 = (\<lambda>t f p k. if p = 0 then at3 xx t f k else if p = 1 then at3 yy t f k
                        else if p = 2 then at3 xy t f k else at3 yx t f k)\<rparr>"

text \<open>
  The loop that copies the other datasets. A dataset whose name is \<open>vis\<close> or
  \<open>vis_mask\<close>, that is baseline ordered, or that is \<open>channo\<close>, is skipped; a dataset
  ordered by a main axis needs an integer in its axis order, else RuntimeError; every
  other dataset is created in the new container with its attributes.
\<close>

fun copy_datasets ::
  "raw_timestream \<Rightarrow> (string \<times> dataset) list \<Rightarrow> (string \<times> dataset) list
     \<Rightarrow> error + (string \<times> dataset) list" where
  "copy_datasets rt [] acc = Inr acc"
| "copy_datasets rt ((dset_name, dset) # rest) acc =
     (if dset_name = ''vis'' \<or> dset_name = ''vis_mask'' then copy_datasets rt rest acc
      else (case map_of (main_axes_ordered_datasets rt) dset_name of
              Some axis_order \<Rightarrow>
                if dset_name \<in> set (bl_ordered_datasets rt) then copy_datasets rt rest acc
                else if list_all (\<lambda>order. order = None) axis_order then Inl RuntimeError
                else copy_datasets rt rest (acc @ [(dset_name, dset)])
            | None \<Rightarrow>
                if dset_name \<in> fst ` set (time_ordered_datasets rt)
                then copy_datasets rt rest (acc @ [(dset_name, dset)])
                else if dset_name \<in> fst ` set (feed_ordered_datasets rt)
                then (if dset_name = ''channo'' then copy_datasets rt rest acc
                      else copy_datasets rt rest (acc @ [(dset_name, dset)]))
                else copy_datasets rt rest (acc @ [(dset_name, dset)])))"

text \<open>
  The body of \<open>separate_pol_and_bl\<close> between the two redistributions: the new
  container built from the source container as it is then distributed. Of the datasets
  that are fields of their own, \<open>freq\<close> and \<open>feedno\<close>, which the class registers
  as ordered by the frequency axis and by feed, are copied by the loop over the
  datasets, \<open>channo\<close> is dropped by it, and \<open>blorder\<close> is skipped by it and created
  anew. The shape checks of the methods that create a dataset are in the absent base
  class and are not modelled, so a call that returns in the code returns in the model.
\<close>

definition separate_data :: "raw_timestream \<Rightarrow> error + timestream" where
  "separate_data self1 =
     (let fno = sort (feedno self1) in
      bind_err (chans_of_feeds fno (channo self1) fst) (\<lambda>xchans.
      bind_err (chans_of_feeds fno (channo self1) snd) (\<lambda>ychans.
      let nfeed = length fno;
          xx_pairs = bl_pairs xchans xchans nfeed;
          yy_pairs = bl_pairs ychans ychans nfeed;
          xy_pairs = bl_pairs xchans ychans nfeed;
          yx_pairs = bl_pairs ychans xchans nfeed;
          blo = blorder self1;
          conj_blo = map (\<lambda>(a, b). (b, a)) (blorder self1) in
      bind_err (map_err (get_ind blo conj_blo) xx_pairs) (\<lambda>xx_list.
      bind_err (map_err (get_ind blo conj_blo) yy_pairs) (\<lambda>yy_list.
      bind_err (map_err (get_ind blo conj_blo) xy_pairs) (\<lambda>xy_list.
      bind_err (map_err (get_ind blo conj_blo) yx_pairs) (\<lambda>yx_list.
      let rvis = vis self1; n = length xx_list in
      bind_err (take_bl rvis (map snd xx_list)) (\<lambda>vxx.
      bind_err (take_bl rvis (map snd yy_list)) (\<lambda>vyy.
      bind_err (take_bl rvis (map snd xy_list)) (\<lambda>vxy.
      bind_err (take_bl rvis (map snd yx_list)) (\<lambda>vyx.
      let vis4 = stack_pol (dim0 rvis) (dim1 rvis) n
                   (where_conj (map fst xx_list) vxx) (where_conj (map fst yy_list) vyy)
                   (where_conj (map fst xy_list) vxy) (where_conj (map fst yx_list) vyx);
          rvis_mask = vis_mask self1 in
      bind_err (take_bl rvis_mask (map snd xx_list)) (\<lambda>mxx.
      bind_err (take_bl rvis_mask (map snd yy_list)) (\<lambda>myy.
      bind_err (take_bl rvis_mask (map snd xy_list)) (\<lambda>mxy.
      bind_err (take_bl rvis_mask (map snd yx_list)) (\<lambda>myx.
      let mask4 = stack_pol (dim0 rvis_mask) (dim1 rvis_mask) n mxx myy mxy myx in
      if \<not> list_all (\<lambda>k. k \<in> {''vis'', ''vis_mask'', ''blorder''}) (bl_ordered_datasets self1)
      then Inl RuntimeError
      else
        bind_err (copy_datasets self1 (other_datasets self1) []) (\<lambda>dsets.
          Inr \<lparr>ts_vis = vis4, ts_vis_mask = mask4,
               ts_pol = [''xx'', ''yy'', ''xy'', ''yx''],
               ts_blorder = bl_pairs fno fno nfeed,
               ts_freq = freq self1,
               ts_feedno = feedno self1,
               ts_dist_axis = main_data_dist_axis self1,
               ts_attrs = filter (\<lambda>(attrs_name, attrs_value).
                                    attrs_name \<notin> set time_ordered_attrs) (attrs self1),
               ts_datasets = dsets\<rparr>))))))))))))))))"

text \<open>
  \<open>separate_pol_and_bl(keep_dist_axis)\<close>. The result is the new container together
  with the source container as the call leaves it.
\<close>

definition separate_pol_and_bl ::
  "raw_timestream \<Rightarrow> bool \<Rightarrow> error + timestream \<times> raw_timestream" where
  "separate_pol_and_bl self keep_dist_axis =
     (let original_dist_axis = main_data_dist_axis self in
      bind_err (py_get main_data_axes original_dist_axis) (\<lambda>axis_name.
      bind_err (if ''baseline'' = axis_name
                then bind_err (redistribute self 0) (\<lambda>s. Inr (False, s))
                else Inr (keep_dist_axis, self)) (\<lambda>(keep, self1).
      bind_err (separate_data self1) (\<lambda>ts.
      bind_err (if keep then redistribute self1 original_dist_axis else Inr self1) (\<lambda>self2.
        Inr (ts, self2))))))"

subsection \<open>A raw container of two feeds\<close>

text \<open>
  Feeds 1 and 2 with channels (0, 1) and (2, 3), the ten baselines of the four
  channels in upper-triangular order, one time sample and two frequencies. The
  visibility at (t, f, b) is \<open>10 f + b + (b + 1) i\<close>; one sample is masked. The
  dictionaries are the class-level ones of \<open>RawTimestream\<close>. The main data is
  distributed along the baseline axis.
\<close>

definition rt0 :: raw_timestream where
  "rt0 = \<lparr>vis = \<lparr>dim0 = 1, dim1 = 2, dim2 = 10,
                  at3 = (\<lambda>t f b. Complex (real (10 * f + b)) (real (b + 1)))\<rparr>,
          vis_mask = \<lparr>dim0 = 1, dim1 = 2, dim2 = 10, at3 = (\<lambda>t f b. f = 1 \<and> b = 5)\<rparr>,
          freq = [700, 701],
          feedno = [1, 2],
          channo = [(0, 1), (2, 3)],
          blorder = [(0, 0), (0, 1), (0, 2), (0, 3), (1, 1), (1, 2), (1, 3), (2, 2), (2, 3), (3, 3)],
          main_data_dist_axis = 2,
          attrs = [(''obstime'', ''2016/01/01''), (''telescope'', ''Tianlai'')],
          other_datasets = [(''sec1970'', \<lparr>kind = Distributed, content = [0], dset_attrs = []\<rparr>),
                            (''weather'', \<lparr>kind = Common, content = [20], dset_attrs = []\<rparr>)],
          main_axes_ordered_datasets =
            [(''vis'', [Some 0, Some 1, Some 2]), (''vis_mask'', [Some 0, Some 1, Some 2]),
             (''sec1970'', [Some 0]), (''jul_date'', [Some 0]), (''freq'', [Some 1]),
             (''blorder'', [Some 2])],
          time_ordered_datasets = [(''weather'', [Some 0])],
          feed_ordered_datasets =
            [(''antpointing'', [None, Some 0]), (''feedno'', [Some 0]), (''channo'', [Some 0]),
             (''feedpos'', [Some 0]), (''polerr'', [Some 0])],
          bl_ordered_datasets = [''vis'', ''vis_mask'', ''blorder'']\<rparr>"

text \<open>
  The container \<open>rt0\<close> with its two feeds listed in descending order: feed 2 with the
  channels (2, 3) first, then feed 1 with the channels (0, 1). The baseline order and
  the data are those of \<open>rt0\<close>.
\<close>

definition rt2 :: raw_timestream where
  "rt2 = rt0\<lparr>feedno := [2, 1], channo := [(2, 3), (0, 1)]\<rparr>"

subsection \<open>Baselines and channel pairs of the separated container\<close>

text \<open>
  The pairs \<open>(i, j)\<close> of positions with \<open>i \<le> j < n\<close>, in ascending order: the
  baselines of a separated container of \<open>n\<close> feeds, as the specification lists them.
\<close>

definition upper_pairs :: "nat \<Rightarrow> (nat \<times> nat) list" where
  "upper_pairs n = filter (\<lambda>(i, j). i \<le> j) (List.product [0 ..< n] [0 ..< n])"

text \<open>
  The channel pair of a polarization slot (0 for xx, 1 for yy, 2 for xy, 3 for yx) for
  the feeds at positions \<open>i\<close> and \<open>j\<close>, given the x and the y channels by position.
\<close>

definition slot_pair :: "nat \<Rightarrow> int list \<Rightarrow> int list \<Rightarrow> nat \<Rightarrow> nat \<Rightarrow> int \<times> int" where
  "slot_pair p xchans ychans i j =
     (if p = 0 then (xchans ! i, xchans ! j)
      else if p = 1 then (ychans ! i, ychans ! j)
      else if p = 2 then (xchans ! i, ychans ! j)
      else (ychans ! i, xchans ! j))"

section \<open>timestream/freq_flag.py\<close>

text \<open>
  \<open>Flag.flag(vis, vis_mask, ...)\<close> on one column along the frequency axis. The two
  arguments are views that the function may write; the result is their contents after
  the call. Magnitudes, mean and standard deviation are exact reals. The count, the
  mean and the standard deviation of the masked array are over its unmasked entries;
  an entry that is already masked stays masked whatever the comparison holds there.
\<close>

definition flag :: "real \<Rightarrow> int \<Rightarrow> complex list \<Rightarrow> bool list \<Rightarrow> complex list \<times> bool list" where
  "flag sigma freq_points v m =
     (let vis_abs = map cmod v;
          valid = map fst (filter (\<lambda>(x, msk). \<not> msk) (zip vis_abs m));
          cnt = length valid
      in if int cnt \<ge> freq_points then
           (let mean = sum_list valid / real cnt;
                std = sqrt (sum_list (map (\<lambda>x. (x - mean)\<^sup>2) valid) / real cnt);
                inds = filter (\<lambda>i. \<not> m ! i \<and> \<bar>vis_abs ! i - mean\<bar> > sigma * std)
                         [0 ..< min (length v) (length m)]
            in (v, fold (\<lambda>i m'. m'[i := True]) inds m))
         else (v, m))"

text \<open>
  Modelled from the spec: \<open>time_and_bl_data_operate\<close> and
  \<open>time_pol_and_bl_data_operate\<close> are methods of the container classes, which are not
  among the sources. By the specification the function is applied to each independent
  (time, baseline) column, for a separated container each (time, polarization,
  baseline) column, of the frequency axis of the main data and of its mask, and what
  it writes to the two views is written to the container.
\<close>

definition column3 :: "'a arr3 \<Rightarrow> nat \<Rightarrow> nat \<Rightarrow> 'a list" where
  "column3 a t b = map (\<lambda>f. at3 a t f b) [0 ..< dim1 a]"

definition column4 :: "'a arr4 \<Rightarrow> nat \<Rightarrow> nat \<Rightarrow> nat \<Rightarrow> 'a list" where
  "column4 a t p b = map (\<lambda>f. at4 a t f p b) [0 ..< len1 a]"

definition inside3 :: "'a arr3 \<Rightarrow> nat \<Rightarrow> nat \<Rightarrow> nat \<Rightarrow> bool" where
  "inside3 a t f b = (t < dim0 a \<and> f < dim1 a \<and> b < dim2 a)"

definition inside4 :: "'a arr4 \<Rightarrow> nat \<Rightarrow> nat \<Rightarrow> nat \<Rightarrow> nat \<Rightarrow> bool" where
  "inside4 a t f p b = (t < len0 a \<and> f < len1 a \<and> p < len2 a \<and> b < len3 a)"

definition time_and_bl_data_operate ::
  "(complex list \<Rightarrow> bool list \<Rightarrow> complex list \<times> bool list) \<Rightarrow> raw_timestream \<Rightarrow> raw_timestream" where
  "time_and_bl_data_operate func rt =
     rt\<lparr>vis := (vis rt)\<lparr>at3 := (\<lambda>t f b.
                  if inside3 (vis rt) t f b
                  then fst (func (column3 (vis rt) t b) (column3 (vis_mask rt) t b)) ! f
                  else at3 (vis rt) t f b)\<rparr>,
        vis_mask := (vis_mask rt)\<lparr>at3 := (\<lambda>t f b.
                  if inside3 (vis_mask rt) t f b
                  then snd (func (column3 (vis rt) t b) (column3 (vis_mask rt) t b)) ! f
                  else at3 (vis_mask rt) t f b)\<rparr>\<rparr>"

definition time_pol_and_bl_data_operate ::
  "(complex list \<Rightarrow> bool list \<Rightarrow> complex list \<times> bool list) \<Rightarrow> timestream \<Rightarrow> timestream" where
  "time_pol_and_bl_data_operate func ts =
     ts\<lparr>ts_vis := (ts_vis ts)\<lparr>at4 := (\<lambda>t f p b.
                  if inside4 (ts_vis ts) t f p b
                  then fst (func (column4 (ts_vis ts) t p b) (column4 (ts_vis_mask ts) t p b)) ! f
                  else at4 (ts_vis ts) t f p b)\<rparr>,
        ts_vis_mask := (ts_vis_mask ts)\<lparr>at4 := (\<lambda>t f p b.
                  if inside4 (ts_vis_mask ts) t f p b
                  then snd (func (column4 (ts_vis ts) t p b) (column4 (ts_vis_mask ts) t p b)) ! f
                  else at4 (ts_vis_mask ts) t f p b)\<rparr>\<rparr>"

text \<open>The container a task receives: a raw or a separated timestream.\<close>

datatype container = Raw raw_timestream | Separated timestream

text \<open>\<open>ts.freq.shape[0]\<close>, the global length of the frequency axis.\<close>

definition nfreq :: "container \<Rightarrow> nat" where
  "nfreq c = (case c of Raw rt \<Rightarrow> length (freq rt) | Separated ts \<Rightarrow> length (ts_freq ts))"

text \<open>\<open>ts.redistribute('time')\<close>: the time axis is axis 0 of both containers.\<close>

definition redistribute_time :: "container \<Rightarrow> error + container" where
  "redistribute_time c =
     (case c of
        Raw rt \<Rightarrow> bind_err (redistribute rt 0) (\<lambda>r. Inr (Raw r))
      | Separated ts \<Rightarrow> Inr (Separated (ts\<lparr>ts_dist_axis := 0\<rparr>)))"

text \<open>
  \<open>Flag.process(ts)\<close>: the container the stage returns and the warnings it issued.
  The call of the parent's \<open>process\<close>, which records the task history and returns the
  container, is outside the sources and changes no dataset.
\<close>

definition process :: "real \<Rightarrow> int \<Rightarrow> container \<Rightarrow> error + container \<times> string list" where
  "process sigma freq_points c =
     (if int (nfreq c) \<ge> freq_points then
        bind_err (redistribute_time c) (\<lambda>c'.
          Inr (case c' of
                 Raw rt \<Rightarrow> Raw (time_and_bl_data_operate (flag sigma freq_points) rt)
               | Separated ts \<Rightarrow>
                   Separated (time_pol_and_bl_data_operate (flag sigma freq_points) ts),
               []))
      else Inr (c, [''Not enough frequency points to do the flag'']))"


subsection \<open>Valid samples of a column\<close>

text \<open>
  The number of unmasked samples of a column along the frequency axis of a mask.
\<close>

definition valid_count3 :: "bool arr3 \<Rightarrow> nat \<Rightarrow> nat \<Rightarrow> nat" where
  "valid_count3 m t b = length (filter (\<lambda>f. \<not> at3 m t f b) [0 ..< dim1 m])"

definition valid_count4 :: "bool arr4 \<Rightarrow> nat \<Rightarrow> nat \<Rightarrow> nat \<Rightarrow> nat" where
  "valid_count4 m t p b = length (filter (\<lambda>f. \<not> at4 m t f p b) [0 ..< len1 m])"

subsection \<open>A raw container of one feed and five frequencies\<close>

text \<open>
  One feed with channels (0, 1), three baselines, one time sample. All visibilities
  are 0 but the one at frequency 4 of baseline 0, which is 5; the sample at frequency 0
  of baseline 1 is masked.
\<close>

definition rt1 :: raw_timestream where
  "rt1 = \<lparr>vis = \<lparr>dim0 = 1, dim1 = 5, dim2 = 3,
                  at3 = (\<lambda>t f b. if f = 4 \<and> b = 0 then 5 else 0)\<rparr>,
          vis_mask = \<lparr>dim0 = 1, dim1 = 5, dim2 = 3, at3 = (\<lambda>t f b. f = 0 \<and> b = 1)\<rparr>,
          freq = [700, 701, 702, 703, 704],
          feedno = [1],
          channo = [(0, 1)],
          blorder = [(0, 0), (0, 1), (1, 1)],
          main_data_dist_axis = 1,
          attrs = [],
          other_datasets = [],
          main_axes_ordered_datasets =
            [(''vis'', [Some 0, Some 1, Some 2]), (''vis_mask'', [Some 0, Some 1, Some 2]),
             (''sec1970'', [Some 0]), (''jul_date'', [Some 0]), (''freq'', [Some 1]),
             (''blorder'', [Some 2])],
          time_ordered_datasets = [(''weather'', [Some 0])],
          feed_ordered_datasets =
            [(''antpointing'', [None, Some 0]), (''feedno'', [Some 0]), (''channo'', [Some 0]),
             (''feedpos'', [Some 0]), (''polerr'', [Some 0])],
          bl_ordered_datasets = [''vis'', ''vis_mask'', ''blorder'']\<rparr>"

section \<open>Verified properties: utils/multiscale.py\<close>

lemma interleave0_Nil: "interleave0 xs = [] \<longleftrightarrow> xs = []"
  by (induction xs rule: interleave0.induct) auto

lemma up_sampling_ok: "phi \<noteq> [] \<Longrightarrow> \<exists>p. up_sampling phi = Inr p \<and> p \<noteq> []"
  by (simp add: up_sampling_def interleave0_Nil)

lemma fold_convolve1d_size:
  "keeps_shape L \<Longrightarrow> same_size (fold (\<lambda>ax a'. convolve1d L a' phi ax) axs a) a"
  by (induction axs arbitrary: a) (auto simp: keeps_shape_def same_size_def)

lemma convolve_size: "keeps_shape L \<Longrightarrow> same_size (convolve L a phi) a"
  unfolding convolve_def by (rule fold_convolve1d_size)

lemma map2_sub_add:
  "length ys = length xs \<Longrightarrow> map2 (+) (map2 (-) xs ys) ys = (xs :: real list)"
  by (induction xs ys rule: list_induct2') auto

lemma arr_add_sub: "same_size b a \<Longrightarrow> arr_add (arr_sub a b) b = a"
  by (simp add: arr_add_def arr_sub_def same_size_def map2_sub_add)

text \<open>
  The invariant of the loop without \<open>gen2\<close> and \<open>approx_only\<close>: it does not raise,
  every iteration appends one sub-band, and the sub-bands added to the current
  approximation give what they gave before the iteration.
\<close>

lemma starlet_loop_telescopes:
  assumes "keeps_shape L" and "phi \<noteq> []"
  shows "\<exists>phi' a' W'. starlet_loop L False False lis (phi, a, W) = Inr (phi', a', W')
           \<and> length W' = length W + length lis
           \<and> foldr arr_add W' a' = foldr arr_add W a"
  using assms(2)
proof (induction lis arbitrary: phi a W)
  case Nil
  then show ?case by simp
next
  case (Cons li lis)
  obtain p where p: "(if li > 0 then up_sampling phi else Inr phi) = Inr p" "p \<noteq> []"
    using up_sampling_ok[OF Cons.prems] Cons.prems by (cases "li > 0") auto
  let ?ap = "convolve L a p"
  from Cons.IH[OF p(2), of ?ap "W @ [arr_sub a ?ap]"]
  obtain phi' a' W' where r:
    "starlet_loop L False False lis (p, ?ap, W @ [arr_sub a ?ap]) = Inr (phi', a', W')"
    "length W' = length (W @ [arr_sub a ?ap]) + length lis"
    "foldr arr_add W' a' = foldr arr_add (W @ [arr_sub a ?ap]) ?ap"
    by blast
  have "foldr arr_add (W @ [arr_sub a ?ap]) ?ap = foldr arr_add W a"
    using arr_add_sub[OF convolve_size[OF assms(1)], of a p] by simp
  with r p show ?case by (simp add: Let_def)
qed

lemma keeps_shape_lib1d: "keeps_shape lib1d"
  by (simp add: keeps_shape_def lib1d_def convolve1d_reflect_def same_size_def)

text \<open>
  Claim C9. For every array \<open>a\<close> and every level of at least 1,
  \<open>starlet_transform(a, level, gen2=False, approx_only=False)\<close> returns a list of
  exactly \<open>level + 1\<close> arrays whose element-wise sum is \<open>a\<close>, in exact arithmetic. It
  holds for every non-empty filter \<open>phi\<close>, the default one among them, and every
  \<open>convolve1d\<close> that keeps the shape of its input.
\<close>

theorem starlet_transform_sums_to_input:
  assumes "keeps_shape L" and "phi \<noteq> []" and "1 \<le> level"
  shows "\<exists>W. starlet_transform L a (Some level) False False phi = Inr W
            \<and> int (length W) = level + 1 \<and> arr_sum W = a"
proof -
  from starlet_loop_telescopes[OF assms(1,2), of "[0 ..< nat level]" a "[]"]
  obtain phi' a' W' where
    "starlet_loop L False False [0 ..< nat level] (phi, a, []) = Inr (phi', a', W')"
    "length W' = nat level" "foldr arr_add W' a' = a"
    by auto
  then show ?thesis using assms(3)
    by (simp add: starlet_transform_def arr_sum_def)
qed

lemma starlet_transform_example:
  "starlet_transform lib1d \<lparr>shape = [3], elems = [16, 0, 32]\<rparr> (Some 2) False False phi0
     = Inr [\<lparr>shape = [3], elems = [4, - 15, 11]\<rparr>,
            \<lparr>shape = [3], elems = [- (15 / 4), - (15 / 16), 75 / 16]\<rparr>,
            \<lparr>shape = [3], elems = [63 / 4, 255 / 16, 261 / 16]\<rparr>]"
  by code_simp

theorem starlet_transform_sums_to_input_witness:
  "keeps_shape lib1d \<and> phi0 \<noteq> [] \<and> (1::int) \<le> 2 \<and>
   (\<exists>W. starlet_transform lib1d \<lparr>shape = [3], elems = [16, 0, 32]\<rparr> (Some 2) False False phi0
           = Inr W \<and> int (length W) = 2 + 1 \<and> arr_sum W = \<lparr>shape = [3], elems = [16, 0, 32]\<rparr>) \<and>
   starlet_transform lib1d \<lparr>shape = [3], elems = [16, 0, 32]\<rparr> (Some 2) False False phi0
     = Inr [\<lparr>shape = [3], elems = [4, - 15, 11]\<rparr>,
            \<lparr>shape = [3], elems = [- (15 / 4), - (15 / 16), 75 / 16]\<rparr>,
            \<lparr>shape = [3], elems = [63 / 4, 255 / 16, 261 / 16]\<rparr>]"
proof -
  have p: "phi0 \<noteq> []" by (simp add: phi0_def)
  have l: "(1::int) \<le> 2" by simp
  have e: "\<exists>W. starlet_transform lib1d \<lparr>shape = [3], elems = [16, 0, 32]\<rparr> (Some 2) False False phi0
           = Inr W \<and> int (length W) = 2 + 1 \<and> arr_sum W = \<lparr>shape = [3], elems = [16, 0, 32]\<rparr>"
    by (rule starlet_transform_sums_to_input[OF keeps_shape_lib1d p l])
  show ?thesis using keeps_shape_lib1d p l e starlet_transform_example by blast
qed

text \<open>
  Claim C10. Called with \<open>level = None\<close>, each of \<open>starlet_transform\<close>,
  \<open>multiscale_median_transform\<close> and \<open>median_wavelet_transform\<close> raises NameError,
  whatever its other arguments, and so does each of the six smooth and detrend
  wrappers, which pass their level on.
\<close>

theorem level_None_raises_NameError:
  "starlet_transform L a None gen2 approx_only phi = Inl NameError \<and>
   multiscale_median_transform L a None scale approx_only = Inl NameError \<and>
   median_wavelet_transform L a None scale tau approx_only phi = Inl NameError \<and>
   starlet_smooth L a None phi = Inl NameError \<and>
   starlet_detrend L a None phi = Inl NameError \<and>
   multiscale_median_smooth L a None scale = Inl NameError \<and>
   multiscale_median_detrend L a None scale = Inl NameError \<and>
   median_wavelet_smooth L a None scale tau phi = Inl NameError \<and>
   median_wavelet_detrend L a None scale tau phi = Inl NameError"
  by (simp add: starlet_transform_def multiscale_median_transform_def
      median_wavelet_transform_def starlet_smooth_def starlet_detrend_def
      multiscale_median_smooth_def multiscale_median_detrend_def
      median_wavelet_smooth_def median_wavelet_detrend_def first_def)

section \<open>Verified properties: lookups and gathers\<close>

lemma bind_err_Inr: "bind_err m f = Inr r \<longleftrightarrow> (\<exists>x. m = Inr x \<and> f x = Inr r)"
  by (cases m) (simp_all add: bind_err_def)

lemma bind_err_Inl: "bind_err m f = Inl e \<longleftrightarrow> (m = Inl e \<or> (\<exists>x. m = Inr x \<and> f x = Inl e))"
  by (cases m) (simp_all add: bind_err_def)

lemma map_err_Inr:
  "map_err f xs = Inr ys \<Longrightarrow> length ys = length xs \<and> (\<forall>k < length xs. f (xs ! k) = Inr (ys ! k))"
proof (induction xs arbitrary: ys)
  case Nil
  then show ?case by simp
next
  case (Cons x xs)
  then obtain y ys' where y: "f x = Inr y" "map_err f xs = Inr ys'" "ys = y # ys'"
    by (auto split: sum.splits)
  with Cons.IH[OF y(2)] show ?case by (auto simp: nth_Cons split: nat.splits)
qed

lemma index_from_Inr:
  "index_from k xs v = Inr r \<Longrightarrow>
     \<exists>d. r = k + d \<and> d < length xs \<and> xs ! d = v \<and> (\<forall>i < d. xs ! i \<noteq> v)"
proof (induction xs arbitrary: k)
  case Nil
  then show ?case by simp
next
  case (Cons x xs)
  show ?case
  proof (cases "x = v")
    case True
    with Cons.prems show ?thesis by auto
  next
    case False
    with Cons.prems have r: "index_from (Suc k) xs v = Inr r" by simp
    from Cons.IH[OF r] obtain d where d: "r = Suc k + d" "d < length xs" "xs ! d = v"
      "\<forall>i < d. xs ! i \<noteq> v" by blast
    have "\<forall>i < Suc d. (x # xs) ! i \<noteq> v"
      using d(4) False by (auto simp: nth_Cons split: nat.splits)
    with d show ?thesis by (intro exI[of _ "Suc d"]) simp
  qed
qed

lemma index_from_Inl: "index_from k xs v = Inl e \<longleftrightarrow> (v \<notin> set xs \<and> e = ValueError)"
  by (induction xs arbitrary: k) auto

lemma py_index_Inr:
  "py_index xs v = Inr r \<Longrightarrow> r < length xs \<and> xs ! r = v \<and> (\<forall>i < r. xs ! i \<noteq> v)"
  using index_from_Inr[of 0 xs v r] by (auto simp: py_index_def)

lemma py_index_Inl: "py_index xs v = Inl e \<longleftrightarrow> (v \<notin> set xs \<and> e = ValueError)"
  by (simp add: py_index_def index_from_Inl)

lemma py_index_mem: "v \<in> set xs \<Longrightarrow> \<exists>r. py_index xs v = Inr r"
  by (cases "py_index xs v") (auto simp: py_index_Inl)

lemma get_ind_Inr:
  assumes "get_ind blo (map (\<lambda>(a, b). (b, a)) blo) chp = Inr (cj, b)"
  shows "b < length blo \<and> (cj \<longleftrightarrow> chp \<notin> set blo)
         \<and> blo ! b = (if cj then (snd chp, fst chp) else chp)
         \<and> (\<forall>i < b. blo ! i \<noteq> (if cj then (snd chp, fst chp) else chp))"
proof (cases "py_index blo chp")
  case (Inr k)
  with assms have "cj = False" "b = k" by (simp_all add: get_ind_def)
  with py_index_Inr[OF Inr] show ?thesis by auto
next
  case (Inl e)
  then have n: "chp \<notin> set blo" "e = ValueError" by (simp_all add: py_index_Inl)
  with assms Inl have k: "py_index (map (\<lambda>(a, b). (b, a)) blo) chp = Inr b" "cj"
    by (auto simp: get_ind_def split: sum.splits)
  from py_index_Inr[OF k(1)] have "b < length blo"
    "(\<lambda>(a, b). (b, a)) (blo ! b) = chp" "\<forall>i<b. (\<lambda>(a, b). (b, a)) (blo ! i) \<noteq> chp" by auto
  then show ?thesis using n k(2) by (auto simp: case_prod_beta prod_eq_iff)
qed

lemma swapped_mem:
  "chp \<in> set (map (\<lambda>(a, b). (b, a)) blo) \<longleftrightarrow> (snd chp, fst chp) \<in> set blo"
  by (cases chp) force

lemma get_ind_Inl:
  "get_ind blo (map (\<lambda>(a, b). (b, a)) blo) chp = Inl e \<longleftrightarrow>
     (e = ValueError \<and> chp \<notin> set blo \<and> (snd chp, fst chp) \<notin> set blo)"
proof (cases "py_index blo chp")
  case (Inr k)
  then have "chp \<in> set blo" using py_index_Inr[OF Inr] by (metis nth_mem)
  with Inr show ?thesis by (simp add: get_ind_def)
next
  case (Inl e1)
  then have n: "chp \<notin> set blo" "e1 = ValueError" by (simp_all add: py_index_Inl)
  show ?thesis
  proof (cases "py_index (map (\<lambda>(a, b). (b, a)) blo) chp")
    case (Inr k)
    then have "chp \<in> set (map (\<lambda>(a, b). (b, a)) blo)"
      using py_index_Inr[OF Inr] by (metis nth_mem)
    then have "(snd chp, fst chp) \<in> set blo" by (simp only: swapped_mem)
    with Inl Inr n show ?thesis by (simp add: get_ind_def)
  next
    case (Inl e2)
    then have "chp \<notin> set (map (\<lambda>(a, b). (b, a)) blo)" and e2: "e2 = ValueError"
      using py_index_Inl[of "map (\<lambda>(a, b). (b, a)) blo" chp e2] by blast+
    then have "(snd chp, fst chp) \<notin> set blo" "e2 = ValueError"
      using swapped_mem[of chp blo] by blast+
    with \<open>py_index blo chp = Inl e1\<close> Inl n show ?thesis by (auto simp: get_ind_def)
  qed
qed

lemma take_bl_Inr:
  "take_bl a inds = Inr r \<Longrightarrow>
     dim0 r = dim0 a \<and> dim1 r = dim1 a \<and> dim2 r = length inds
     \<and> (\<forall>i \<in> set inds. i < dim2 a) \<and> (\<forall>t f k. at3 r t f k = at3 a t f (inds ! k))"
  by (auto simp: take_bl_def list_all_iff split: if_splits)

section \<open>Verified properties: separate_pol_and_bl\<close>

lemma copy_datasets_dist_axis:
  "copy_datasets (rt\<lparr>main_data_dist_axis := ax\<rparr>) ds acc = copy_datasets rt ds acc"
proof (induction ds arbitrary: acc)
  case Nil
  show ?case by simp
next
  case (Cons d ds)
  obtain nm dset where d: "d = (nm, dset)" by (cases d)
  show ?case unfolding d by (simp add: Cons.IH split: option.splits)
qed

text \<open>What a successful run of the body has computed.\<close>

lemma separate_data_Inr:
  assumes "separate_data s = Inr ts"
  shows "\<exists>xchans ychans xx_list yy_list xy_list yx_list vxx vyy vxy vyx mxx myy mxy myx dsets.
      chans_of_feeds (sort (feedno s)) (channo s) fst = Inr xchans
    \<and> chans_of_feeds (sort (feedno s)) (channo s) snd = Inr ychans
    \<and> map_err (get_ind (blorder s) (map (\<lambda>(a, b). (b, a)) (blorder s)))
           (bl_pairs xchans xchans (length (feedno s))) = Inr xx_list
    \<and> map_err (get_ind (blorder s) (map (\<lambda>(a, b). (b, a)) (blorder s)))
           (bl_pairs ychans ychans (length (feedno s))) = Inr yy_list
    \<and> map_err (get_ind (blorder s) (map (\<lambda>(a, b). (b, a)) (blorder s)))
           (bl_pairs xchans ychans (length (feedno s))) = Inr xy_list
    \<and> map_err (get_ind (blorder s) (map (\<lambda>(a, b). (b, a)) (blorder s)))
           (bl_pairs ychans xchans (length (feedno s))) = Inr yx_list
    \<and> take_bl (vis s) (map snd xx_list) = Inr vxx
    \<and> take_bl (vis s) (map snd yy_list) = Inr vyy
    \<and> take_bl (vis s) (map snd xy_list) = Inr vxy
    \<and> take_bl (vis s) (map snd yx_list) = Inr vyx
    \<and> take_bl (vis_mask s) (map snd xx_list) = Inr mxx
    \<and> take_bl (vis_mask s) (map snd yy_list) = Inr myy
    \<and> take_bl (vis_mask s) (map snd xy_list) = Inr mxy
    \<and> take_bl (vis_mask s) (map snd yx_list) = Inr myx
    \<and> list_all (\<lambda>k. k \<in> {''vis'', ''vis_mask'', ''blorder''}) (bl_ordered_datasets s)
    \<and> copy_datasets s (other_datasets s) [] = Inr dsets
    \<and> ts = \<lparr>ts_vis = stack_pol (dim0 (vis s)) (dim1 (vis s)) (length xx_list)
                   (where_conj (map fst xx_list) vxx) (where_conj (map fst yy_list) vyy)
                   (where_conj (map fst xy_list) vxy) (where_conj (map fst yx_list) vyx),
             ts_vis_mask = stack_pol (dim0 (vis_mask s)) (dim1 (vis_mask s)) (length xx_list)
                   mxx myy mxy myx,
             ts_pol = [''xx'', ''yy'', ''xy'', ''yx''],
             ts_blorder = bl_pairs (sort (feedno s)) (sort (feedno s)) (length (feedno s)),
             ts_freq = freq s, ts_feedno = feedno s,
             ts_dist_axis = main_data_dist_axis s,
             ts_attrs = filter (\<lambda>(attrs_name, attrs_value).
                                    attrs_name \<notin> set time_ordered_attrs) (attrs s),
             ts_datasets = dsets\<rparr>"
proof (cases "list_all (\<lambda>k. k \<in> {''vis'', ''vis_mask'', ''blorder''}) (bl_ordered_datasets s)")
  case False
  with assms show ?thesis
    unfolding separate_data_def Let_def bind_err_Inr by (simp only: if_True simp_thms sum.distinct ex_simps)
next
  case True
  from assms show ?thesis
    unfolding separate_data_def Let_def bind_err_Inr length_sort
    apply (simp only: True if_False simp_thms sum.inject bind_err_Inr)
    apply (elim exE conjE)
    apply (intro exI conjI)
                      apply (assumption | rule sym, assumption)+
    done
qed

lemma separate_pol_and_bl_unfold:
  assumes "main_data_dist_axis self < 3"
  shows "separate_pol_and_bl self keep =
     (case separate_data (self\<lparr>main_data_dist_axis :=
              (if main_data_dist_axis self = 2 then 0 else main_data_dist_axis self)\<rparr>) of
        Inl e \<Rightarrow> Inl e
      | Inr ts \<Rightarrow> Inr (ts, self\<lparr>main_data_dist_axis :=
              (if main_data_dist_axis self = 2 then 0 else main_data_dist_axis self)\<rparr>))"
proof -
  let ?d = "main_data_dist_axis self"
  have ax: "py_get main_data_axes ?d = Inr (main_data_axes ! ?d)"
    using assms by (simp add: py_get_def main_data_axes_def)
  have bl: "(''baseline'' = main_data_axes ! ?d) = (?d = 2)"
    using assms
    by (auto simp: main_data_axes_def nth_Cons less_Suc_eq numeral_3_eq_3 split: nat.splits)
  have r0: "redistribute self 0 = Inr (self\<lparr>main_data_dist_axis := 0\<rparr>)"
    by (simp add: redistribute_def main_data_axes_def)
  have rd: "redistribute self ?d = Inr self"
    using assms by (simp add: redistribute_def main_data_axes_def)
  have len: "length main_data_axes = 3" by (simp add: main_data_axes_def)
  show ?thesis
  proof (cases "?d = 2")
    case True
    have b2: "main_data_axes ! 2 = ''baseline''" by (simp add: main_data_axes_def)
    show ?thesis
      by (simp add: separate_pol_and_bl_def Let_def py_get_def len bind_err_def True b2 r0
          split: sum.splits)
  next
    case False
    have b2: "''baseline'' \<noteq> main_data_axes ! ?d" using bl False by simp
    show ?thesis
      using assms
      by (simp add: separate_pol_and_bl_def Let_def py_get_def len bind_err_def False b2 rd
          split: sum.splits)
  qed
qed

lemma separate_pol_and_bl_Inr:
  assumes "separate_pol_and_bl self keep = Inr (ts, self')"
  shows "main_data_dist_axis self < 3"
    and "self' = self\<lparr>main_data_dist_axis :=
                  (if main_data_dist_axis self = 2 then 0 else main_data_dist_axis self)\<rparr>"
    and "separate_data self' = Inr ts"
proof -
  show d3: "main_data_dist_axis self < 3"
    using assms
    by (auto simp: separate_pol_and_bl_def Let_def bind_err_Inr py_get_def main_data_axes_def
        split: if_splits)
  from assms show "self' = self\<lparr>main_data_dist_axis :=
                  (if main_data_dist_axis self = 2 then 0 else main_data_dist_axis self)\<rparr>"
    unfolding separate_pol_and_bl_unfold[OF d3] by (auto split: sum.splits)
  from assms show "separate_data self' = Inr ts"
    unfolding separate_pol_and_bl_unfold[OF d3] by (auto split: sum.splits)
qed

lemma rt0_separates: "\<exists>ts. separate_data (rt0\<lparr>main_data_dist_axis := ax\<rparr>) = Inr ts"
proof -
  have "case separate_data (rt0\<lparr>main_data_dist_axis := ax\<rparr>) of Inl e \<Rightarrow> False | Inr ts \<Rightarrow> True"
    by code_simp
  then show ?thesis by (auto split: sum.splits)
qed

text \<open>
  Claim C8, as amended. After a call of \<open>separate_pol_and_bl\<close> that returns, with
  \<open>keep_dist_axis\<close> true or false, the source container is what it was except for its
  distribution axis: that axis is unchanged when it was the time or the frequency
  axis, and it is the time axis when it was the baseline axis, where the method sets
  \<open>keep_dist_axis\<close> to false before it redistributes. The new container is
  distributed along the same axis as the source then is.
\<close>

theorem source_dist_axis_after_separation:
  assumes "separate_pol_and_bl self keep_dist_axis = Inr (ts, self')"
  shows "main_data_dist_axis self' =
           (if main_data_dist_axis self = 2 then 0 else main_data_dist_axis self)
         \<and> ts_dist_axis ts = main_data_dist_axis self'
         \<and> self' = self\<lparr>main_data_dist_axis := main_data_dist_axis self'\<rparr>"
proof -
  note r = separate_pol_and_bl_Inr[OF assms]
  from separate_data_Inr[OF r(3)] have "ts_dist_axis ts = main_data_dist_axis self'" by auto
  moreover have "main_data_dist_axis self' =
           (if main_data_dist_axis self = 2 then 0 else main_data_dist_axis self)"
    by (subst r(2)) simp
  ultimately show ?thesis using r(2) by simp
qed

text \<open>
  Claim C8 as stated fails: the container \<open>rt0\<close> is distributed along the baseline
  axis, the call with \<open>keep_dist_axis = True\<close> returns, and the source is then
  distributed along the time axis.
\<close>

theorem keep_dist_axis_baseline_counterexample:
  "\<exists>ts self'. separate_pol_and_bl rt0 True = Inr (ts, self')
      \<and> main_data_axes ! main_data_dist_axis rt0 = ''baseline''
      \<and> main_data_dist_axis self' \<noteq> main_data_dist_axis rt0"
proof -
  have d: "main_data_dist_axis rt0 = 2" by (simp add: rt0_def)
  obtain ts where ts: "separate_data (rt0\<lparr>main_data_dist_axis := 0\<rparr>) = Inr ts"
    using rt0_separates by blast
  have "separate_pol_and_bl rt0 True = Inr (ts, rt0\<lparr>main_data_dist_axis := 0\<rparr>)"
    using ts by (simp add: separate_pol_and_bl_unfold d)
  then show ?thesis by (auto simp: d main_data_axes_def)
qed

theorem source_dist_axis_after_separation_witness:
  "\<exists>ts self'. separate_pol_and_bl (rt0\<lparr>main_data_dist_axis := 1\<rparr>) True = Inr (ts, self')
      \<and> main_data_dist_axis self' = 1 \<and> ts_dist_axis ts = 1"
proof -
  obtain ts where ts: "separate_data (rt0\<lparr>main_data_dist_axis := 1\<rparr>) = Inr ts"
    using rt0_separates by blast
  have s: "separate_pol_and_bl (rt0\<lparr>main_data_dist_axis := 1\<rparr>) True = Inr (ts, rt0\<lparr>main_data_dist_axis := 1\<rparr>)"
    using ts by (simp add: separate_pol_and_bl_unfold)
  from source_dist_axis_after_separation[OF s] s show ?thesis by simp
qed

lemma filter_le_upt: "filter (\<lambda>j. i \<le> j) [0 ..< n] = [i ..< n]"
proof (induction n)
  case 0
  show ?case by simp
next
  case (Suc n)
  show ?case
  proof (cases "i \<le> n")
    case True
    then show ?thesis using Suc by (simp add: upt_Suc_append)
  next
    case False
    then show ?thesis using Suc by simp
  qed
qed

lemma upper_pairs_rows:
  "filter (\<lambda>(i, j). i \<le> j) (List.product is [0 ..< n])
     = concat (map (\<lambda>i. map (Pair i) [i ..< n]) is)"
  by (induction "is") (simp_all add: filter_map comp_def filter_le_upt)

lemma bl_pairs_upper: "bl_pairs xs ys n = map (\<lambda>(i, j). (xs ! i, ys ! j)) (upper_pairs n)"
  by (simp add: bl_pairs_def upper_pairs_def upper_pairs_rows map_concat comp_def)

lemma upper_pairs_set: "set (upper_pairs n) = {(i, j). i \<le> j \<and> j < n}"
  by (auto simp: upper_pairs_def)

lemma upper_pairs_example: "upper_pairs 3 = [(0, 0), (0, 1), (0, 2), (1, 1), (1, 2), (2, 2)]"
  by code_simp

text \<open>
  Claim C1. When \<open>separate_pol_and_bl\<close> returns, the polarization dataset of the new
  container holds exactly the labels xx, yy, xy, yx in that order, and its baseline
  order is exactly the list of the pairs \<open>(feedno[i], feedno[j])\<close> of the sorted feed
  numbers, for every \<open>i \<le> j\<close>, in ascending \<open>(i, j)\<close> order.
\<close>

theorem separated_pol_and_blorder:
  assumes "separate_pol_and_bl self keep_dist_axis = Inr (ts, self')"
  shows "ts_pol ts = [''xx'', ''yy'', ''xy'', ''yx''] \<and>
         ts_blorder ts = map (\<lambda>(i, j). (sort (feedno self) ! i, sort (feedno self) ! j))
                           (upper_pairs (length (feedno self)))"
proof -
  note r = separate_pol_and_bl_Inr[OF assms]
  have f: "feedno self' = feedno self" by (subst r(2)) simp
  from separate_data_Inr[OF r(3)]
  have "ts_pol ts = [''xx'', ''yy'', ''xy'', ''yx'']"
    and "ts_blorder ts = bl_pairs (sort (feedno self')) (sort (feedno self')) (length (feedno self'))"
    by auto
  then show ?thesis by (simp add: f bl_pairs_upper)
qed

theorem separated_pol_and_blorder_witness:
  "\<exists>ts self'. separate_pol_and_bl rt0 False = Inr (ts, self') \<and>
     ts_pol ts = [''xx'', ''yy'', ''xy'', ''yx''] \<and> ts_blorder ts = [(1, 1), (1, 2), (2, 2)]"
proof -
  obtain ts where ts: "separate_data (rt0\<lparr>main_data_dist_axis := 0\<rparr>) = Inr ts"
    using rt0_separates by blast
  have d: "main_data_dist_axis rt0 = 2" by (simp add: rt0_def)
  have s: "separate_pol_and_bl rt0 False = Inr (ts, rt0\<lparr>main_data_dist_axis := 0\<rparr>)"
    using ts by (simp add: separate_pol_and_bl_unfold d)
  have u: "map (\<lambda>(i, j). (sort (feedno rt0) ! i, sort (feedno rt0) ! j))
             (upper_pairs (length (feedno rt0))) = [(1, 1), (1, 2), (2, 2)]"
    by code_simp
  from separated_pol_and_blorder[OF s] s u show ?thesis by simp
qed

text \<open>One polarization slot: the gathered and conjugated array at baseline \<open>k\<close>.\<close>

lemma slot_gather:
  assumes l: "map_err (get_ind blo (map (\<lambda>(a, b). (b, a)) blo)) (bl_pairs A B n) = Inr lst"
    and v: "take_bl v (map snd lst) = Inr vp"
    and m: "take_bl m (map snd lst) = Inr mp"
    and k: "k < length (upper_pairs n)"
    and ij: "upper_pairs n ! k = (i, j)"
  shows "\<exists>cj b. get_ind blo (map (\<lambda>(a, b). (b, a)) blo) (A ! i, B ! j) = Inr (cj, b)
          \<and> b < dim2 v \<and> b < dim2 m
          \<and> (\<forall>t f. at3 (where_conj (map fst lst) vp) t f k
                        = (if cj then cnj (at3 v t f b) else at3 v t f b)
                  \<and> at3 mp t f k = at3 m t f b)"
proof -
  have len: "length (bl_pairs A B n) = length (upper_pairs n)"
    by (simp add: bl_pairs_upper)
  have nth: "bl_pairs A B n ! k = (A ! i, B ! j)"
    using k ij by (simp add: bl_pairs_upper)
  from map_err_Inr[OF l] len k nth
  have ll: "length lst = length (upper_pairs n)"
    and g: "get_ind blo (map (\<lambda>(a, b). (b, a)) blo) (A ! i, B ! j) = Inr (lst ! k)"
    by auto
  obtain cj b where cb: "lst ! k = (cj, b)" by (cases "lst ! k")
  have kl: "k < length lst" using k ll by simp
  then have mem: "b \<in> set (map snd lst)"
    using cb by (metis length_map nth_map nth_mem snd_conv)
  from take_bl_Inr[OF v] mem kl cb
  have bv: "b < dim2 v" and av: "\<And>t f. at3 vp t f k = at3 v t f b" by auto
  from take_bl_Inr[OF m] mem kl cb
  have bm: "b < dim2 m" and am: "\<And>t f. at3 mp t f k = at3 m t f b" by auto
  have "\<And>t f. at3 (where_conj (map fst lst) vp) t f k
                  = (if cj then cnj (at3 v t f b) else at3 v t f b)"
    using kl cb by (simp add: where_conj_def av)
  with g cb bv bm am show ?thesis by auto
qed

text \<open>
  The gather of \<open>separate_pol_and_bl\<close>. When the method returns, the separated arrays
  have the time and frequency extents of the original ones, four polarization slots and
  one baseline per feed pair \<open>(i, j)\<close> with \<open>i \<le> j\<close>. At the position \<open>k\<close> of such a feed
  pair and every polarization slot \<open>p\<close>, the channel pair of the slot resolves to a flag
  and a baseline index \<open>b\<close>: the flag is set exactly when the pair is not in the baseline
  order, where \<open>b\<close> is then the first position of the reversed pair, and otherwise \<open>b\<close>
  is the first position of the pair. At every time and frequency the separated
  visibility at \<open>(t, f, p, k)\<close> is the original one at \<open>(t, f, b)\<close>, conjugated exactly
  when the flag is set, and the separated mask is the original mask at \<open>(t, f, b)\<close>,
  never conjugated. The channel pair of a slot is made of the x and y channels that the
  method reads from \<open>channo\<close> at the positions of the feeds in the sorted feed list.
\<close>

lemma separation_gathers:
  assumes "separate_pol_and_bl self keep_dist_axis = Inr (ts, self')"
  shows "\<exists>xchans ychans.
      chans_of_feeds (sort (feedno self)) (channo self) fst = Inr xchans
    \<and> chans_of_feeds (sort (feedno self)) (channo self) snd = Inr ychans
    \<and> len0 (ts_vis ts) = dim0 (vis self) \<and> len1 (ts_vis ts) = dim1 (vis self)
    \<and> len0 (ts_vis_mask ts) = dim0 (vis_mask self)
    \<and> len1 (ts_vis_mask ts) = dim1 (vis_mask self)
    \<and> len2 (ts_vis ts) = 4 \<and> len2 (ts_vis_mask ts) = 4
    \<and> len3 (ts_vis ts) = length (upper_pairs (length (feedno self)))
    \<and> len3 (ts_vis_mask ts) = length (upper_pairs (length (feedno self)))
    \<and> (\<forall>k < length (upper_pairs (length (feedno self))). \<forall>p < 4.
         (let (i, j) = upper_pairs (length (feedno self)) ! k;
              chp = slot_pair p xchans ychans i j
          in \<exists>cj b.
               get_ind (blorder self) (map (\<lambda>(a, b). (b, a)) (blorder self)) chp = Inr (cj, b)
             \<and> (cj \<longleftrightarrow> chp \<notin> set (blorder self))
             \<and> b < length (blorder self)
             \<and> blorder self ! b = (if cj then (snd chp, fst chp) else chp)
             \<and> (\<forall>b' < b. blorder self ! b' \<noteq> (if cj then (snd chp, fst chp) else chp))
             \<and> b < dim2 (vis self) \<and> b < dim2 (vis_mask self)
             \<and> (\<forall>t f. at4 (ts_vis ts) t f p k
                           = (if cj then cnj (at3 (vis self) t f b) else at3 (vis self) t f b)
                     \<and> at4 (ts_vis_mask ts) t f p k = at3 (vis_mask self) t f b)))"
proof -
  note r = separate_pol_and_bl_Inr[OF assms]
  have f: "feedno self' = feedno self" "channo self' = channo self" "blorder self' = blorder self"
    "vis self' = vis self" "vis_mask self' = vis_mask self"
    by (subst r(2), simp)+
  let ?n = "length (feedno self)"
  let ?g = "get_ind (blorder self) (map (\<lambda>(a, b). (b, a)) (blorder self))"
  from separate_data_Inr[OF r(3)] obtain xchans ychans xx_list yy_list xy_list yx_list
    vxx vyy vxy vyx mxx myy mxy myx where
    xc: "chans_of_feeds (sort (feedno self)) (channo self) fst = Inr xchans" and
    yc: "chans_of_feeds (sort (feedno self)) (channo self) snd = Inr ychans" and
    xx: "map_err ?g (bl_pairs xchans xchans ?n) = Inr xx_list" and
    yy: "map_err ?g (bl_pairs ychans ychans ?n) = Inr yy_list" and
    xy: "map_err ?g (bl_pairs xchans ychans ?n) = Inr xy_list" and
    yx: "map_err ?g (bl_pairs ychans xchans ?n) = Inr yx_list" and
    v: "take_bl (vis self) (map snd xx_list) = Inr vxx"
       "take_bl (vis self) (map snd yy_list) = Inr vyy"
       "take_bl (vis self) (map snd xy_list) = Inr vxy"
       "take_bl (vis self) (map snd yx_list) = Inr vyx" and
    m: "take_bl (vis_mask self) (map snd xx_list) = Inr mxx"
       "take_bl (vis_mask self) (map snd yy_list) = Inr myy"
       "take_bl (vis_mask self) (map snd xy_list) = Inr mxy"
       "take_bl (vis_mask self) (map snd yx_list) = Inr myx" and
    tv: "ts_vis ts = stack_pol (dim0 (vis self)) (dim1 (vis self)) (length xx_list)
                   (where_conj (map fst xx_list) vxx) (where_conj (map fst yy_list) vyy)
                   (where_conj (map fst xy_list) vxy) (where_conj (map fst yx_list) vyx)" and
    tm: "ts_vis_mask ts = stack_pol (dim0 (vis_mask self)) (dim1 (vis_mask self)) (length xx_list)
                   mxx myy mxy myx"
    unfolding f by auto
  have lx: "length xx_list = length (upper_pairs ?n)"
    using map_err_Inr[OF xx] by (simp add: bl_pairs_upper)
  have main: "\<exists>cj b. ?g (slot_pair p xchans ychans i j) = Inr (cj, b)
             \<and> (cj \<longleftrightarrow> slot_pair p xchans ychans i j \<notin> set (blorder self))
             \<and> b < length (blorder self)
             \<and> blorder self ! b = (if cj then (snd (slot_pair p xchans ychans i j),
                                               fst (slot_pair p xchans ychans i j))
                                    else slot_pair p xchans ychans i j)
             \<and> (\<forall>b' < b. blorder self ! b' \<noteq>
                   (if cj then (snd (slot_pair p xchans ychans i j),
                                fst (slot_pair p xchans ychans i j))
                    else slot_pair p xchans ychans i j))
             \<and> b < dim2 (vis self) \<and> b < dim2 (vis_mask self)
             \<and> (\<forall>t f. at4 (ts_vis ts) t f p k
                           = (if cj then cnj (at3 (vis self) t f b) else at3 (vis self) t f b)
                     \<and> at4 (ts_vis_mask ts) t f p k = at3 (vis_mask self) t f b)"
    if k: "k < length (upper_pairs ?n)" and p: "p < 4" and ij: "upper_pairs ?n ! k = (i, j)"
    for k p i j
  proof -
    let ?c = "slot_pair p xchans ychans i j"
    have "\<exists>cj b. ?g ?c = Inr (cj, b) \<and> b < dim2 (vis self) \<and> b < dim2 (vis_mask self)
             \<and> (\<forall>t f. at4 (ts_vis ts) t f p k
                           = (if cj then cnj (at3 (vis self) t f b) else at3 (vis self) t f b)
                     \<and> at4 (ts_vis_mask ts) t f p k = at3 (vis_mask self) t f b)"
    proof -
      consider "p = 0" | "p = 1" | "p = 2" | "p = 3" using p by linarith
      then show ?thesis
      proof cases
        case 1
        from slot_gather[OF xx v(1) m(1) k ij] show ?thesis
          by (simp add: 1 slot_pair_def tv tm stack_pol_def)
      next
        case 2
        from slot_gather[OF yy v(2) m(2) k ij] show ?thesis
          by (simp add: 2 slot_pair_def tv tm stack_pol_def)
      next
        case 3
        from slot_gather[OF xy v(3) m(3) k ij] show ?thesis
          by (simp add: 3 slot_pair_def tv tm stack_pol_def)
      next
        case 4
        from slot_gather[OF yx v(4) m(4) k ij] show ?thesis
          by (simp add: 4 slot_pair_def tv tm stack_pol_def)
      qed
    qed
    then obtain cj b where
      g: "?g ?c = Inr (cj, b)" "b < dim2 (vis self)" "b < dim2 (vis_mask self)"
         "\<forall>t f. at4 (ts_vis ts) t f p k
                    = (if cj then cnj (at3 (vis self) t f b) else at3 (vis self) t f b)
              \<and> at4 (ts_vis_mask ts) t f p k = at3 (vis_mask self) t f b"
      by blast
    from get_ind_Inr[OF g(1)] g show ?thesis by blast
  qed
  have dims: "len0 (ts_vis ts) = dim0 (vis self)" "len1 (ts_vis ts) = dim1 (vis self)"
    "len0 (ts_vis_mask ts) = dim0 (vis_mask self)" "len1 (ts_vis_mask ts) = dim1 (vis_mask self)"
    "len2 (ts_vis ts) = 4" "len2 (ts_vis_mask ts) = 4"
    "len3 (ts_vis ts) = length (upper_pairs ?n)" "len3 (ts_vis_mask ts) = length (upper_pairs ?n)"
    by (simp_all add: tv tm stack_pol_def lx)
  show ?thesis
  proof (rule exI[of _ xchans])
    show "\<exists>ychans'. chans_of_feeds (sort (feedno self)) (channo self) fst = Inr xchans
      \<and> chans_of_feeds (sort (feedno self)) (channo self) snd = Inr ychans'
      \<and> len0 (ts_vis ts) = dim0 (vis self) \<and> len1 (ts_vis ts) = dim1 (vis self)
      \<and> len0 (ts_vis_mask ts) = dim0 (vis_mask self)
      \<and> len1 (ts_vis_mask ts) = dim1 (vis_mask self)
      \<and> len2 (ts_vis ts) = 4 \<and> len2 (ts_vis_mask ts) = 4
      \<and> len3 (ts_vis ts) = length (upper_pairs ?n)
      \<and> len3 (ts_vis_mask ts) = length (upper_pairs ?n)
      \<and> (\<forall>k < length (upper_pairs ?n). \<forall>p < 4.
         (let (i, j) = upper_pairs ?n ! k;
              chp = slot_pair p xchans ychans' i j
          in \<exists>cj b.
               ?g chp = Inr (cj, b)
             \<and> (cj \<longleftrightarrow> chp \<notin> set (blorder self))
             \<and> b < length (blorder self)
             \<and> blorder self ! b = (if cj then (snd chp, fst chp) else chp)
             \<and> (\<forall>b' < b. blorder self ! b' \<noteq> (if cj then (snd chp, fst chp) else chp))
             \<and> b < dim2 (vis self) \<and> b < dim2 (vis_mask self)
             \<and> (\<forall>t f. at4 (ts_vis ts) t f p k
                           = (if cj then cnj (at3 (vis self) t f b) else at3 (vis self) t f b)
                     \<and> at4 (ts_vis_mask ts) t f p k = at3 (vis_mask self) t f b)))"
    proof (intro exI[of _ ychans] conjI xc yc dims allI impI)
      fix k p :: nat
      assume k: "k < length (upper_pairs ?n)" and p: "p < 4"
      obtain i j where ij: "upper_pairs ?n ! k = (i, j)" by (cases "upper_pairs ?n ! k")
      from main[OF k p ij] show "let (i, j) = upper_pairs ?n ! k;
              chp = slot_pair p xchans ychans i j
          in \<exists>cj b.
               ?g chp = Inr (cj, b)
             \<and> (cj \<longleftrightarrow> chp \<notin> set (blorder self))
             \<and> b < length (blorder self)
             \<and> blorder self ! b = (if cj then (snd chp, fst chp) else chp)
             \<and> (\<forall>b' < b. blorder self ! b' \<noteq> (if cj then (snd chp, fst chp) else chp))
             \<and> b < dim2 (vis self) \<and> b < dim2 (vis_mask self)
             \<and> (\<forall>t f. at4 (ts_vis ts) t f p k
                           = (if cj then cnj (at3 (vis self) t f b) else at3 (vis self) t f b)
                     \<and> at4 (ts_vis_mask ts) t f p k = at3 (vis_mask self) t f b)"
        by (simp only: Let_def ij prod.case)
    qed
  qed
qed

text \<open>
  For a container whose feed numbers are sorted, the channels that \<open>separate_pol_and_bl\<close>
  reads for a feed are those that \<open>feed_select\<close> reads for it: the row of \<open>channo\<close> at the
  position of the feed in \<open>feedno\<close>. For unsorted feed numbers they are the row of
  \<open>channo\<close> at the position of the feed in the sorted list: with feeds \<open>[2, 1]\<close> and
  channels \<open>[(2, 3), (0, 1)]\<close>, feed 1 is given channel 2.
\<close>

lemma chans_of_feeds_sorted:
  "sorted fno \<Longrightarrow>
     chans_of_feeds (sort fno) chn c
       = map_err (\<lambda>fd. bind_err (feed_channels fno chn fd) (\<lambda>row. Inr (c row))) fno"
  by (simp add: chans_of_feeds_def feed_channels_def sorted_sort_id)

lemma chans_of_feeds_unsorted_example:
  "chans_of_feeds (sort [2, 1]) [(2, 3), (0, 1)] fst = Inr [2, 0] \<and>
   feed_channels [2, 1] [(2, 3), (0, 1)] 1 = Inr (0, 1)"
  by code_simp

lemma chans_of_feeds_sorted_nth:
  assumes s: "sorted fno" and c: "chans_of_feeds (sort fno) chn c = Inr chans"
    and i: "i < length fno"
  shows "\<exists>row. feed_channels fno chn (fno ! i) = Inr row \<and> chans ! i = c row"
proof -
  from c s have "map_err (\<lambda>fd. bind_err (feed_channels fno chn fd) (\<lambda>row. Inr (c row))) fno
                   = Inr chans"
    by (simp add: chans_of_feeds_sorted)
  from map_err_Inr[OF this] i
  have "bind_err (feed_channels fno chn (fno ! i)) (\<lambda>row. Inr (c row)) = Inr (chans ! i)"
    by simp
  then show ?thesis by (auto simp: bind_err_Inr)
qed

text \<open>
  The gather for sorted feed numbers. When the feed numbers of the container are in
  ascending order and \<open>separate_pol_and_bl\<close> returns, then for the feed pair \<open>(i, j)\<close>
  at position \<open>k\<close> of the new baseline axis, the feeds \<open>feedno ! i\<close> and \<open>feedno ! j\<close>
  have channels \<open>(xi, yi)\<close> and \<open>(xj, yj)\<close> in \<open>channo\<close>, and the four slots at \<open>k\<close> are
  gathered from the baselines resolved for \<open>(xi, xj)\<close>, \<open>(yi, yj)\<close>, \<open>(xi, yj)\<close> and
  \<open>(yi, xj)\<close>, conjugated exactly when the pair is found in reverse orientation only;
  the mask is gathered from the same baselines and never conjugated.
\<close>

lemma separation_gathers_sorted:
  assumes sep: "separate_pol_and_bl self keep_dist_axis = Inr (ts, self')"
    and srt: "sorted (feedno self)"
    and k: "k < length (upper_pairs (length (feedno self)))"
    and ij: "upper_pairs (length (feedno self)) ! k = (i, j)"
    and p: "p < 4"
  shows "\<exists>xi yi xj yj cj b.
      feed_channels (feedno self) (channo self) (feedno self ! i) = Inr (xi, yi)
    \<and> feed_channels (feedno self) (channo self) (feedno self ! j) = Inr (xj, yj)
    \<and> ts_blorder ts ! k = (feedno self ! i, feedno self ! j)
    \<and> get_ind (blorder self) (map (\<lambda>(a, b). (b, a)) (blorder self))
         (if p = 0 then (xi, xj) else if p = 1 then (yi, yj)
          else if p = 2 then (xi, yj) else (yi, xj)) = Inr (cj, b)
    \<and> (cj \<longleftrightarrow> (if p = 0 then (xi, xj) else if p = 1 then (yi, yj)
                else if p = 2 then (xi, yj) else (yi, xj)) \<notin> set (blorder self))
    \<and> (\<forall>t f. at4 (ts_vis ts) t f p k
                  = (if cj then cnj (at3 (vis self) t f b) else at3 (vis self) t f b)
            \<and> at4 (ts_vis_mask ts) t f p k = at3 (vis_mask self) t f b)"
proof -
  let ?n = "length (feedno self)"
  let ?g = "get_ind (blorder self) (map (\<lambda>(a, b). (b, a)) (blorder self))"
  from separation_gathers[OF sep] obtain xchans ychans where
    xc: "chans_of_feeds (sort (feedno self)) (channo self) fst = Inr xchans" and
    yc: "chans_of_feeds (sort (feedno self)) (channo self) snd = Inr ychans" and
    a: "\<forall>k < length (upper_pairs ?n). \<forall>p < 4.
         (let (i, j) = upper_pairs ?n ! k;
              chp = slot_pair p xchans ychans i j
          in \<exists>cj b.
               ?g chp = Inr (cj, b)
             \<and> (cj \<longleftrightarrow> chp \<notin> set (blorder self))
             \<and> b < length (blorder self)
             \<and> blorder self ! b = (if cj then (snd chp, fst chp) else chp)
             \<and> (\<forall>b' < b. blorder self ! b' \<noteq> (if cj then (snd chp, fst chp) else chp))
             \<and> b < dim2 (vis self) \<and> b < dim2 (vis_mask self)
             \<and> (\<forall>t f. at4 (ts_vis ts) t f p k
                           = (if cj then cnj (at3 (vis self) t f b) else at3 (vis self) t f b)
                     \<and> at4 (ts_vis_mask ts) t f p k = at3 (vis_mask self) t f b))"
    by (elim exE conjE)
  have "(i, j) \<in> set (upper_pairs ?n)" using k ij by (metis nth_mem)
  then have ib: "i < ?n" and jb: "j < ?n" by (auto simp: upper_pairs_set)
  from chans_of_feeds_sorted_nth[OF srt xc ib] chans_of_feeds_sorted_nth[OF srt yc ib]
  obtain ri where ri: "feed_channels (feedno self) (channo self) (feedno self ! i) = Inr ri"
    "xchans ! i = fst ri" "ychans ! i = snd ri" by auto
  from chans_of_feeds_sorted_nth[OF srt xc jb] chans_of_feeds_sorted_nth[OF srt yc jb]
  obtain rj where rj: "feed_channels (feedno self) (channo self) (feedno self ! j) = Inr rj"
    "xchans ! j = fst rj" "ychans ! j = snd rj" by auto
  have sp: "slot_pair p xchans ychans i j =
      (if p = 0 then (fst ri, fst rj) else if p = 1 then (snd ri, snd rj)
       else if p = 2 then (fst ri, snd rj) else (snd ri, fst rj))"
    by (simp add: slot_pair_def ri rj)
  note r = separate_pol_and_bl_Inr[OF sep]
  have f: "feedno self' = feedno self" by (subst r(2)) simp
  from separate_data_Inr[OF r(3)]
  have "ts_blorder ts = bl_pairs (sort (feedno self')) (sort (feedno self')) (length (feedno self'))"
    by auto
  then have bl: "ts_blorder ts ! k = (feedno self ! i, feedno self ! j)"
    using k ij srt by (simp add: f bl_pairs_upper sorted_sort_id)
  from a[rule_format, OF k p] obtain cj b where
    g: "?g (slot_pair p xchans ychans i j) = Inr (cj, b)"
       "cj \<longleftrightarrow> slot_pair p xchans ychans i j \<notin> set (blorder self)"
       "\<forall>t f. at4 (ts_vis ts) t f p k
                  = (if cj then cnj (at3 (vis self) t f b) else at3 (vis self) t f b)
            \<and> at4 (ts_vis_mask ts) t f p k = at3 (vis_mask self) t f b"
    unfolding Let_def ij prod.case by blast
  show ?thesis
    using ri(1) rj(1) bl g unfolding sp
    by (intro exI[of _ "fst ri"] exI[of _ "snd ri"] exI[of _ "fst rj"] exI[of _ "snd rj"]
          exI[of _ cj] exI[of _ b]) simp
qed

lemma rt2_separation:
  "case separate_pol_and_bl rt2 False of
     Inl e \<Rightarrow> False
   | Inr (ts, self') \<Rightarrow>
       ts_blorder ts ! 0 = (1, 1) \<and> ts_blorder ts ! 1 = (1, 2)
     \<and> len0 (ts_vis ts) = 1 \<and> len1 (ts_vis ts) = 2 \<and> len2 (ts_vis ts) = 4 \<and> len3 (ts_vis ts) = 3
     \<and> at4 (ts_vis ts) 0 1 0 0 = Complex 17 8
     \<and> at4 (ts_vis_mask ts) 0 1 3 1 = False"
  by code_simp

text \<open>
  Claim C2 fails for a container whose feed numbers are not in ascending order. In
  \<open>rt2\<close> the feeds are listed as 2, 1 with the channels (2, 3), (0, 1). The separation
  returns arrays of extents 1, 2, 4, 3, with the feed pair (1, 1) at position 0 and the
  feed pair (1, 2) at position 1 of the new baseline axis. Feed 1 has the channels
  (0, 1): the channel pair of the xx slot of (1, 1) is (0, 0), which resolves in forward
  orientation to baseline index 0. The separated visibility in that slot is the original
  one at baseline index 7, the channel pair (2, 2) of feed 2, and not the one at index 0.
  The channel pair of the yx slot of (1, 2) is (1, 2), which resolves in forward
  orientation to baseline index 5, where the original mask is set; the separated mask in
  that slot is not set. The method reads \<open>channo\<close> at the position of the feed in the
  sorted feed list; \<open>feed_select\<close> reads it at the position of the feed in \<open>feedno\<close>.
\<close>

theorem separation_unsorted_feedno:
  "\<exists>ts self'. separate_pol_and_bl rt2 False = Inr (ts, self')
     \<and> len0 (ts_vis ts) = 1 \<and> len1 (ts_vis ts) = 2 \<and> len2 (ts_vis ts) = 4 \<and> len3 (ts_vis ts) = 3
     \<and> ts_blorder ts ! 0 = (1, 1) \<and> ts_blorder ts ! 1 = (1, 2)
     \<and> feed_channels (feedno rt2) (channo rt2) 1 = Inr (0, 1)
     \<and> feed_channels (feedno rt2) (channo rt2) 2 = Inr (2, 3)
     \<and> get_ind (blorder rt2) (map (\<lambda>(a, b). (b, a)) (blorder rt2)) (0, 0) = Inr (False, 0)
     \<and> at3 (vis rt2) 0 1 0 = Complex 10 1
     \<and> at4 (ts_vis ts) 0 1 0 0 = Complex 17 8
     \<and> at3 (vis rt2) 0 1 7 = Complex 17 8
     \<and> blorder rt2 ! 7 = (2, 2)
     \<and> get_ind (blorder rt2) (map (\<lambda>(a, b). (b, a)) (blorder rt2)) (1, 2) = Inr (False, 5)
     \<and> at3 (vis_mask rt2) 0 1 5
     \<and> \<not> at4 (ts_vis_mask ts) 0 1 3 1"
proof -
  have e: "feed_channels (feedno rt2) (channo rt2) 1 = Inr (0, 1)"
    "feed_channels (feedno rt2) (channo rt2) 2 = Inr (2, 3)"
    "get_ind (blorder rt2) (map (\<lambda>(a, b). (b, a)) (blorder rt2)) (0, 0) = Inr (False, 0)"
    "at3 (vis rt2) 0 1 0 = Complex 10 1"
    "at3 (vis rt2) 0 1 7 = Complex 17 8"
    "blorder rt2 ! 7 = (2, 2)"
    "get_ind (blorder rt2) (map (\<lambda>(a, b). (b, a)) (blorder rt2)) (1, 2) = Inr (False, 5)"
    "at3 (vis_mask rt2) 0 1 5"
    by code_simp+
  obtain ts self' where s: "separate_pol_and_bl rt2 False = Inr (ts, self')"
    using rt2_separation by (cases "separate_pol_and_bl rt2 False") auto
  from rt2_separation have "ts_blorder ts ! 0 = (1, 1) \<and> ts_blorder ts ! 1 = (1, 2)
     \<and> len0 (ts_vis ts) = 1 \<and> len1 (ts_vis ts) = 2 \<and> len2 (ts_vis ts) = 4 \<and> len3 (ts_vis ts) = 3
     \<and> at4 (ts_vis ts) 0 1 0 0 = Complex 17 8
     \<and> at4 (ts_vis_mask ts) 0 1 3 1 = False"
    unfolding s by simp
  with s e show ?thesis by blast
qed

text \<open>
  A container with the feeds in descending order is what \<open>feed_select\<close> records for a
  slice with a negative step: from the feeds 1, 2 it keeps the feeds 2, 1 and the
  channels (2, 3), (0, 1).
\<close>

lemma feed_select_reversed_slice:
  "feed_select [1, 2] [(0, 1), (2, 3)] (blorder rt0) (Tuple [None, None, Some (- 1)]) ''all''
     = Inr (Some \<lparr>baseline_select = [0, 1, 2, 3, 4, 5, 6, 7, 8, 9], feed_sel = [2, 1],
                  channel_sel = [(2, 3), (0, 1)]\<rparr>)"
  by code_simp

section \<open>Verified properties: feed_select\<close>

lemma map_err_Inr_iff: "map_err f xs = Inr ys \<longleftrightarrow> list_all2 (\<lambda>x y. f x = Inr y) xs ys"
proof (induction xs arbitrary: ys)
  case Nil
  show ?case by auto
next
  case (Cons x xs)
  show ?case
    by (auto simp: list_all2_Cons1 Cons.IH[symmetric] split: sum.splits)
qed

lemma map_err_total: "(\<And>x. x \<in> set xs \<Longrightarrow> f x = Inr (g x)) \<Longrightarrow> map_err f xs = Inr (map g xs)"
  by (simp add: map_err_Inr_iff list_all2_conv_all_nth)

lemma map_err_set:
  assumes "map_err f xs = Inr ys"
  shows "set ys = {y. \<exists>x \<in> set xs. f x = Inr y}" and "\<And>x. x \<in> set xs \<Longrightarrow> \<exists>y. f x = Inr y"
proof -
  from assms have l: "list_all2 (\<lambda>x y. f x = Inr y) xs ys" by (simp add: map_err_Inr_iff)
  show "set ys = {y. \<exists>x \<in> set xs. f x = Inr y}"
  proof (intro set_eqI iffI)
    fix y assume "y \<in> set ys"
    then obtain i where "i < length ys" "ys ! i = y" by (auto simp: in_set_conv_nth)
    with l have "xs ! i \<in> set xs" "f (xs ! i) = Inr y"
      by (auto simp: list_all2_conv_all_nth)
    then show "y \<in> {y. \<exists>x \<in> set xs. f x = Inr y}" by blast
  next
    fix y assume "y \<in> {y. \<exists>x \<in> set xs. f x = Inr y}"
    then obtain i where "i < length xs" "f (xs ! i) = Inr y" by (auto simp: in_set_conv_nth)
    with l have "i < length ys" "ys ! i = y" by (auto simp: list_all2_conv_all_nth)
    then show "y \<in> set ys" by auto
  qed
  show "\<And>x. x \<in> set xs \<Longrightarrow> \<exists>y. f x = Inr y"
    using l by (auto simp: list_all2_conv_all_nth in_set_conv_nth)
qed

lemma combinations2_subset: "set (combinations2 xs) \<subseteq> set xs \<times> set xs"
  by (induction xs) auto

lemma combinations_with_replacement2_set:
  "set (combinations_with_replacement2 xs) = set (combinations2 xs) \<union> (\<lambda>x. (x, x)) ` set xs"
  by (induction xs) auto

lemma channel_pairs_all_union:
  assumes a: "channel_pairs fno chn feeds ''auto'' = Inr pa"
    and c: "channel_pairs fno chn feeds ''cross'' = Inr pc"
  shows "\<exists>pl. channel_pairs fno chn feeds ''all'' = Inr pl \<and> set pl = set pa \<union> set pc"
proof -
  let ?ch = "feed_channels fno chn"
  let ?A = "\<lambda>fd. (case chs_of fno chn fd of (ch1, ch2) \<Rightarrow> [{ch1}, {ch2}, {ch1, ch2}])"
  let ?X = "\<lambda>fds. (case chs_of fno chn (fst fds) of (ch1, ch2) \<Rightarrow>
                    case chs_of fno chn (snd fds) of (ch3, ch4) \<Rightarrow>
                      [{ch1, ch3}, {ch1, ch4}, {ch2, ch3}, {ch2, ch4}])"
  from a obtain psa where psa: "map_err (auto_pairs fno chn) feeds = Inr psa"
    by (auto simp: channel_pairs_def bind_err_Inr)
  have ok: "?ch fd = Inr (chs_of fno chn fd)" if "fd \<in> set feeds" for fd
    using map_err_set(2)[OF psa that]
    by (auto simp: auto_pairs_def bind_err_Inr chs_of_def)
  have au: "auto_pairs fno chn fd = Inr (?A fd)" if "fd \<in> set feeds" for fd
    by (simp add: auto_pairs_def ok[OF that] bind_err_def split: prod.splits)
  have cr: "cross_pairs fno chn fds = Inr (?X fds)"
    if "fst fds \<in> set feeds" "snd fds \<in> set feeds" for fds
    by (simp add: cross_pairs_def ok[OF that(1)] ok[OF that(2)] bind_err_def split: prod.splits)
  have pa: "pa = concat (map ?A feeds)"
    using a map_err_total[of feeds "auto_pairs fno chn" ?A, OF au]
    by (simp add: channel_pairs_def bind_err_def)
  have sub: "fst fds \<in> set feeds \<and> snd fds \<in> set feeds" if "fds \<in> set (combinations2 feeds)" for fds
    using combinations2_subset[of feeds] that by (cases fds) auto
  have subr: "fst fds \<in> set feeds \<and> snd fds \<in> set feeds"
    if "fds \<in> set (combinations_with_replacement2 feeds)" for fds
    using that sub[of fds] by (auto simp: combinations_with_replacement2_set)
  have pc: "pc = concat (map ?X (combinations2 feeds))"
    using c map_err_total[of "combinations2 feeds" "cross_pairs fno chn" ?X] cr sub
    by (simp add: channel_pairs_def bind_err_def)
  have pl: "channel_pairs fno chn feeds ''all''
              = Inr (concat (map ?X (combinations_with_replacement2 feeds)))"
    using map_err_total[of "combinations_with_replacement2 feeds" "cross_pairs fno chn" ?X] cr subr
    by (simp add: channel_pairs_def bind_err_def)
  have diag: "set (?X (fd, fd)) = set (?A fd)" for fd
    by (cases "chs_of fno chn fd") (auto simp: insert_commute)
  have "set (concat (map ?X (combinations_with_replacement2 feeds)))
          = set (concat (map ?A feeds)) \<union> set (concat (map ?X (combinations2 feeds)))"
    unfolding set_concat set_map combinations_with_replacement2_set image_Un Union_Un_distrib
      image_image diag by blast
  with pl pa pc show ?thesis by simp
qed

lemma index_all_union:
  assumes "map_err (py_index bls) pa = Inr ia" and "map_err (py_index bls) pc = Inr ic"
    and "set pl = set pa \<union> set pc"
  shows "\<exists>il. map_err (py_index bls) pl = Inr il \<and> set il = set ia \<union> set ic"
proof -
  let ?g = "\<lambda>p. (case py_index bls p of Inr k \<Rightarrow> k | Inl e \<Rightarrow> 0)"
  have "py_index bls p = Inr (?g p)" if "p \<in> set pl" for p
    using that assms(3) map_err_set(2)[OF assms(1), of p] map_err_set(2)[OF assms(2), of p]
    by auto
  then have l: "map_err (py_index bls) pl = Inr (map ?g pl)" by (rule map_err_total)
  have "set (map ?g pl) = set ia \<union> set ic"
    unfolding map_err_set(1)[OF l] map_err_set(1)[OF assms(1)] map_err_set(1)[OF assms(2)] assms(3)
    by blast
  with l show ?thesis by blast
qed

text \<open>
  Claim C5. For every list \<open>F\<close> of feed numbers, a fixed feed to channel map and a
  fixed baseline order in which \<open>feed_select(F, 'auto')\<close> and
  \<open>feed_select(F, 'cross')\<close> find all their pairs, \<open>feed_select(F, 'all')\<close> finds all
  its pairs too, and the baseline indices it selects are exactly the union of those the
  other two select, without duplicates. A list is never the default tuple, so the
  early return of \<open>feed_select\<close> does not apply.
\<close>

theorem feed_select_all_is_auto_union_cross:
  assumes "feed_select fno chn blo (List F) ''auto'' = Inr (Some a)"
    and "feed_select fno chn blo (List F) ''cross'' = Inr (Some c)"
  shows "\<exists>r. feed_select fno chn blo (List F) ''all'' = Inr (Some r)
           \<and> set (baseline_select r) = set (baseline_select a) \<union> set (baseline_select c)
           \<and> distinct (baseline_select r) \<and> sorted (baseline_select r)"
proof -
  let ?feeds = "intersect1d fno F"
  let ?bls = "map (\<lambda>(a, b). {a, b}) blo"
  from assms(1) obtain pa ia csa where
    a: "channel_pairs fno chn ?feeds ''auto'' = Inr pa" "map_err (py_index ?bls) pa = Inr ia"
       "map_err (feed_channels fno chn) ?feeds = Inr csa" "baseline_select a = sort (remdups ia)"
    by (auto simp: feed_select_def select_feeds_def bind_err_Inr)
  from assms(2) obtain pc ic where
    c: "channel_pairs fno chn ?feeds ''cross'' = Inr pc" "map_err (py_index ?bls) pc = Inr ic"
       "baseline_select c = sort (remdups ic)"
    by (auto simp: feed_select_def select_feeds_def bind_err_Inr)
  from channel_pairs_all_union[OF a(1) c(1)] obtain pl where
    pl: "channel_pairs fno chn ?feeds ''all'' = Inr pl" "set pl = set pa \<union> set pc" by blast
  from index_all_union[OF a(2) c(2) pl(2)] obtain il where
    il: "map_err (py_index ?bls) pl = Inr il" "set il = set ia \<union> set ic" by blast
  have "feed_select fno chn blo (List F) ''all''
          = Inr (Some \<lparr>baseline_select = sort (remdups il), feed_sel = ?feeds, channel_sel = csa\<rparr>)"
    by (simp add: feed_select_def select_feeds_def bind_err_def pl(1) il(1) a(3))
  then show ?thesis by (simp add: a(4) c(3) il(2))
qed

lemma feed_select_rt0_auto:
  "feed_select (feedno rt0) (channo rt0) (blorder rt0) (List [1, 2]) ''auto''
     = Inr (Some \<lparr>baseline_select = [0, 1, 4, 7, 8, 9], feed_sel = [1, 2],
                  channel_sel = [(0, 1), (2, 3)]\<rparr>)"
  by code_simp

lemma feed_select_rt0_cross:
  "feed_select (feedno rt0) (channo rt0) (blorder rt0) (List [1, 2]) ''cross''
     = Inr (Some \<lparr>baseline_select = [2, 3, 5, 6], feed_sel = [1, 2],
                  channel_sel = [(0, 1), (2, 3)]\<rparr>)"
  by code_simp

theorem feed_select_all_is_auto_union_cross_witness:
  "feed_select (feedno rt0) (channo rt0) (blorder rt0) (List [1, 2]) ''auto''
     = Inr (Some \<lparr>baseline_select = [0, 1, 4, 7, 8, 9], feed_sel = [1, 2],
                  channel_sel = [(0, 1), (2, 3)]\<rparr>) \<and>
   feed_select (feedno rt0) (channo rt0) (blorder rt0) (List [1, 2]) ''cross''
     = Inr (Some \<lparr>baseline_select = [2, 3, 5, 6], feed_sel = [1, 2],
                  channel_sel = [(0, 1), (2, 3)]\<rparr>) \<and>
   (\<exists>r. feed_select (feedno rt0) (channo rt0) (blorder rt0) (List [1, 2]) ''all'' = Inr (Some r)
        \<and> set (baseline_select r) = {0, 1, 2, 3, 4, 5, 6, 7, 8, 9}
        \<and> distinct (baseline_select r) \<and> sorted (baseline_select r))"
proof -
  from feed_select_all_is_auto_union_cross[OF feed_select_rt0_auto feed_select_rt0_cross]
  obtain r where
    "feed_select (feedno rt0) (channo rt0) (blorder rt0) (List [1, 2]) ''all'' = Inr (Some r)"
    "set (baseline_select r) = set [0, 1, 4, 7, 8, 9] \<union> set [2, 3, 5, 6]"
    "distinct (baseline_select r)" "sorted (baseline_select r)"
    by auto
  moreover have "set [0, 1, 4, 7, 8, 9] \<union> set [2, 3, 5, 6] = {0, 1, 2, 3, 4, 5, 6, 7, 8, 9 :: nat}"
    by auto
  ultimately show ?thesis using feed_select_rt0_auto feed_select_rt0_cross by auto
qed

lemma pair_set_eq: "(case q of (c, d) \<Rightarrow> {c, d}) = {a, b} \<longleftrightarrow> q = (a, b) \<or> q = (b, a)"
  by (cases q) (auto simp: doubleton_eq_iff)

lemma py_index_sets_Inr:
  assumes "py_index (map (\<lambda>(a, b). {a, b}) blo) {a, b} = Inr k"
  shows "either_at blo (a, b) k"
proof -
  from py_index_Inr[OF assms]
  have k: "k < length blo" and e: "(case blo ! k of (c, d) \<Rightarrow> {c, d}) = {a, b}"
    and f: "\<forall>i < k. (case blo ! i of (c, d) \<Rightarrow> {c, d}) \<noteq> {a, b}"
    by auto
  show ?thesis
    unfolding either_at_def using k e f by (simp add: pair_set_eq)
qed

lemma py_index_sets_Inl:
  "py_index (map (\<lambda>(a, b). {a, b}) blo) {a, b} = Inl e
     \<longleftrightarrow> e = ValueError \<and> (a, b) \<notin> set blo \<and> (b, a) \<notin> set blo"
proof -
  have "{a, b} \<in> set (map (\<lambda>(a, b). {a, b}) blo)
          \<longleftrightarrow> (\<exists>q \<in> set blo. (case q of (c, d) \<Rightarrow> {c, d}) = {a, b})"
    unfolding set_map image_iff by (rule bex_cong) (auto simp: eq_commute)
  also have "\<dots> \<longleftrightarrow> (a, b) \<in> set blo \<or> (b, a) \<in> set blo"
    unfolding pair_set_eq by blast
  finally show ?thesis by (simp add: py_index_Inl) blast
qed

lemma py_index_sets_present:
  assumes "(a, b) \<in> set blo \<or> (b, a) \<in> set blo"
  shows "\<exists>k. py_index (map (\<lambda>(a, b). {a, b}) blo) {a, b} = Inr k \<and> either_at blo (a, b) k"
proof (cases "py_index (map (\<lambda>(a, b). {a, b}) blo) {a, b}")
  case (Inl e)
  with assms show ?thesis by (simp add: py_index_sets_Inl)
next
  case (Inr k)
  with py_index_sets_Inr[OF Inr] show ?thesis by simp
qed

lemma scenario_channel_pairs:
  "channel_pairs scenario_feedno scenario_channo [1, 2] ''cross''
     = Inr [{0, 2}, {0, 3}, {1, 2}, {1, 3}]"
  by code_simp

lemma scenario_feeds:
  "select_feeds scenario_feedno (List [1, 2]) = Inr [1, 2] \<and>
   map_err (feed_channels scenario_feedno scenario_channo) [1, 2] = Inr [(0, 1), (2, 3)]"
  by code_simp

text \<open>
  Claim C4, as amended. In the scenario of the specification, with any baseline order
  that holds each of the channel pairs (0, 2), (0, 3), (1, 2), (1, 3) in some
  orientation, \<open>feed_select([1, 2], corr='cross')\<close> resolves to exactly these four
  pairs, as unordered pairs, and hands to the baseline selection exactly the sorted
  distinct positions of the first entry that holds each pair in either orientation. It
  records the selected feeds and their channels besides, and nothing else: no
  conjugation is part of it.
\<close>

theorem feed_select_cross_scenario:
  assumes "list_all (\<lambda>p. p \<in> set blo \<or> (snd p, fst p) \<in> set blo) [(0, 2), (0, 3), (1, 2), (1, 3)]"
  shows "channel_pairs scenario_feedno scenario_channo [1, 2] ''cross''
           = Inr [{0, 2}, {0, 3}, {1, 2}, {1, 3}] \<and>
         (\<exists>k1 k2 k3 k4.
            feed_select scenario_feedno scenario_channo blo (List [1, 2]) ''cross''
              = Inr (Some \<lparr>baseline_select = sort (remdups [k1, k2, k3, k4]),
                           feed_sel = [1, 2], channel_sel = [(0, 1), (2, 3)]\<rparr>)
            \<and> either_at blo (0, 2) k1 \<and> either_at blo (0, 3) k2
            \<and> either_at blo (1, 2) k3 \<and> either_at blo (1, 3) k4)"
proof -
  let ?bls = "map (\<lambda>(a, b). {a, b}) blo"
  from assms obtain k1 k2 k3 k4 where
    k: "py_index ?bls {0, 2} = Inr k1" "either_at blo (0, 2) k1"
       "py_index ?bls {0, 3} = Inr k2" "either_at blo (0, 3) k2"
       "py_index ?bls {1, 2} = Inr k3" "either_at blo (1, 2) k3"
       "py_index ?bls {1, 3} = Inr k4" "either_at blo (1, 3) k4"
    using py_index_sets_present[of 0 2 blo] py_index_sets_present[of 0 3 blo]
      py_index_sets_present[of 1 2 blo] py_index_sets_present[of 1 3 blo]
    by auto
  have "feed_select scenario_feedno scenario_channo blo (List [1, 2]) ''cross''
              = Inr (Some \<lparr>baseline_select = sort (remdups [k1, k2, k3, k4]),
                           feed_sel = [1, 2], channel_sel = [(0, 1), (2, 3)]\<rparr>)"
  proof -
    have mi: "map_err (py_index ?bls) [{0, 2}, {0, 3}, {1, 2}, {1, 3}] = Inr [k1, k2, k3, k4]"
      by (simp add: k)
    show ?thesis
      unfolding feed_select_def
      by (simp add: scenario_feeds scenario_channel_pairs bind_err_def mi
          del: remdups.simps sort_key_simps map_err.simps)
  qed
  with k scenario_channel_pairs show ?thesis by blast
qed

lemma scenario_present:
  "list_all (\<lambda>p. p \<in> set scenario_blorder \<or> (snd p, fst p) \<in> set scenario_blorder)
     [(0, 2), (0, 3), (1, 2), (1, 3)]"
  by code_simp

lemma scenario_feed_select:
  "feed_select scenario_feedno scenario_channo scenario_blorder (List [1, 2]) ''cross''
     = Inr (Some \<lparr>baseline_select = [1, 7, 13, 15], feed_sel = [1, 2],
                  channel_sel = [(0, 1), (2, 3)]\<rparr>)"
  by code_simp

theorem feed_select_cross_scenario_witness:
  "list_all (\<lambda>p. p \<in> set scenario_blorder \<or> (snd p, fst p) \<in> set scenario_blorder)
     [(0, 2), (0, 3), (1, 2), (1, 3)] \<and>
   channel_pairs scenario_feedno scenario_channo [1, 2] ''cross''
     = Inr [{0, 2}, {0, 3}, {1, 2}, {1, 3}] \<and>
   feed_select scenario_feedno scenario_channo scenario_blorder (List [1, 2]) ''cross''
     = Inr (Some \<lparr>baseline_select = [1, 7, 13, 15], feed_sel = [1, 2],
                  channel_sel = [(0, 1), (2, 3)]\<rparr>) \<and>
   either_at scenario_blorder (0, 2) 1 \<and> either_at scenario_blorder (0, 3) 13 \<and>
   either_at scenario_blorder (1, 2) 15 \<and> either_at scenario_blorder (1, 3) 7"
proof -
  have e: "either_at scenario_blorder (0, 2) 1" "either_at scenario_blorder (0, 3) 13"
    "either_at scenario_blorder (1, 2) 15" "either_at scenario_blorder (1, 3) 7"
    by code_simp+
  from feed_select_cross_scenario[OF scenario_present] scenario_present scenario_feed_select e
  show ?thesis by blast
qed

text \<open>
  Claim C4 as stated fails in its last clause. The representative baseline order holds
  (1, 2) only reversed, at position 15, where the lookup of the separation would set
  the conjugation flag. What \<open>feed_select\<close> leaves in the container is the same as
  for the baseline order that holds (1, 2) itself at position 15, where the flag would
  not be set: the orientation of a pair has no effect on the selection.
\<close>

theorem feed_select_no_conjugation_counterexample:
  "(1, 2) \<notin> set scenario_blorder \<and> scenario_blorder ! 15 = (2, 1) \<and>
   get_ind scenario_blorder (map (\<lambda>(a, b). (b, a)) scenario_blorder) (1, 2) = Inr (True, 15) \<and>
   get_ind (scenario_blorder[15 := (1, 2)])
     (map (\<lambda>(a, b). (b, a)) (scenario_blorder[15 := (1, 2)])) (1, 2) = Inr (False, 15) \<and>
   feed_select scenario_feedno scenario_channo scenario_blorder (List [1, 2]) ''cross''
     = Inr (Some \<lparr>baseline_select = [1, 7, 13, 15], feed_sel = [1, 2],
                  channel_sel = [(0, 1), (2, 3)]\<rparr>) \<and>
   feed_select scenario_feedno scenario_channo (scenario_blorder[15 := (1, 2)]) (List [1, 2]) ''cross''
     = Inr (Some \<lparr>baseline_select = [1, 7, 13, 15], feed_sel = [1, 2],
                  channel_sel = [(0, 1), (2, 3)]\<rparr>)"
  by code_simp

lemma map_err_one_error:
  assumes "\<And>x e. x \<in> set xs \<Longrightarrow> f x = Inl e \<Longrightarrow> e = E"
  shows "(\<exists>ys. map_err f xs = Inr ys) \<or> map_err f xs = Inl E"
  using assms
proof (induction xs)
  case Nil
  show ?case by simp
next
  case (Cons x xs)
  have ih: "(\<exists>ys. map_err f xs = Inr ys) \<or> map_err f xs = Inl E"
    by (rule Cons.IH) (rule Cons.prems, simp_all)
  show ?case
  proof (cases "f x")
    case (Inl e)
    with Cons.prems(1)[of x e] show ?thesis by simp
  next
    case (Inr y)
    with ih show ?thesis by auto
  qed
qed

lemma get_ind_list:
  "(\<exists>ys. map_err (get_ind blo (map (\<lambda>(a, b). (b, a)) blo)) xs = Inr ys)
     \<or> map_err (get_ind blo (map (\<lambda>(a, b). (b, a)) blo)) xs = Inl ValueError"
  by (rule map_err_one_error) (simp add: get_ind_Inl)

lemma get_ind_list_missing:
  assumes "chp \<in> set xs" "chp \<notin> set blo" "(snd chp, fst chp) \<notin> set blo"
  shows "map_err (get_ind blo (map (\<lambda>(a, b). (b, a)) blo)) xs \<noteq> Inr ys"
proof
  assume "map_err (get_ind blo (map (\<lambda>(a, b). (b, a)) blo)) xs = Inr ys"
  from map_err_set(2)[OF this assms(1)] obtain y where
    "get_ind blo (map (\<lambda>(a, b). (b, a)) blo) chp = Inr y" by blast
  moreover have "get_ind blo (map (\<lambda>(a, b). (b, a)) blo) chp = Inl ValueError"
    using assms(2,3) by (simp add: get_ind_Inl)
  ultimately show False by simp
qed

lemma separate_data_missing_pair:
  assumes xc: "chans_of_feeds (sort (feedno s)) (channo s) fst = Inr xchans"
    and yc: "chans_of_feeds (sort (feedno s)) (channo s) snd = Inr ychans"
    and p: "p < 4" and ij: "(i, j) \<in> set (upper_pairs (length (feedno s)))"
    and m: "slot_pair p xchans ychans i j \<notin> set (blorder s)"
       "(snd (slot_pair p xchans ychans i j), fst (slot_pair p xchans ychans i j)) \<notin> set (blorder s)"
  shows "separate_data s = Inl ValueError"
proof -
  let ?n = "length (feedno s)"
  let ?g = "get_ind (blorder s) (map (\<lambda>(a, b). (b, a)) (blorder s))"
  have mem: "(A ! i, B ! j) \<in> set (bl_pairs A B ?n)" for A B :: "int list"
    using ij by (force simp: bl_pairs_upper)
  consider "p = 0" | "p = 1" | "p = 2" | "p = 3" using p by linarith
  then have bad: "(\<forall>ys. map_err ?g (bl_pairs xchans xchans ?n) \<noteq> Inr ys)
      \<or> (\<forall>ys. map_err ?g (bl_pairs ychans ychans ?n) \<noteq> Inr ys)
      \<or> (\<forall>ys. map_err ?g (bl_pairs xchans ychans ?n) \<noteq> Inr ys)
      \<or> (\<forall>ys. map_err ?g (bl_pairs ychans xchans ?n) \<noteq> Inr ys)"
  proof cases
    case 1
    then show ?thesis
      using get_ind_list_missing[OF mem[of xchans xchans]] m by (simp add: slot_pair_def)
  next
    case 2
    then show ?thesis
      using get_ind_list_missing[OF mem[of ychans ychans]] m by (simp add: slot_pair_def)
  next
    case 3
    then show ?thesis
      using get_ind_list_missing[OF mem[of xchans ychans]] m by (simp add: slot_pair_def)
  next
    case 4
    then show ?thesis
      using get_ind_list_missing[OF mem[of ychans xchans]] m by (simp add: slot_pair_def)
  qed
  have sd: "separate_data s =
     bind_err (map_err ?g (bl_pairs xchans xchans ?n)) (\<lambda>xx_list.
     bind_err (map_err ?g (bl_pairs ychans ychans ?n)) (\<lambda>yy_list.
     bind_err (map_err ?g (bl_pairs xchans ychans ?n)) (\<lambda>xy_list.
     bind_err (map_err ?g (bl_pairs ychans xchans ?n)) (\<lambda>yx_list.
       case separate_data s of Inl e \<Rightarrow> Inl e | Inr ts \<Rightarrow> Inr ts))))"
    by (cases "map_err ?g (bl_pairs xchans xchans ?n)";
        cases "map_err ?g (bl_pairs ychans ychans ?n)";
        cases "map_err ?g (bl_pairs xchans ychans ?n)";
        cases "map_err ?g (bl_pairs ychans xchans ?n)")
       (simp_all add: separate_data_def Let_def xc yc bind_err_def split: sum.splits)
  from bad get_ind_list[of "blorder s" "bl_pairs xchans xchans ?n"]
    get_ind_list[of "blorder s" "bl_pairs ychans ychans ?n"]
    get_ind_list[of "blorder s" "bl_pairs xchans ychans ?n"]
    get_ind_list[of "blorder s" "bl_pairs ychans xchans ?n"]
  show ?thesis
    by (subst sd) (auto simp: bind_err_def)
qed

lemma feed_select_missing_pair:
  assumes nd: "\<not> (sel = Tuple [Some 0, None] \<and> corr = ''all'')"
    and sf: "select_feeds fno sel = Inr feeds"
    and cp: "channel_pairs fno chn feeds corr = Inr chps"
    and c: "c \<in> set chps" "c \<notin> set (map (\<lambda>(a, b). {a, b}) blo)"
  shows "feed_select fno chn blo sel corr = Inl ValueError"
proof -
  let ?bls = "map (\<lambda>(a, b). {a, b}) blo"
  have "(\<exists>ys. map_err (py_index ?bls) chps = Inr ys) \<or> map_err (py_index ?bls) chps = Inl ValueError"
    by (rule map_err_one_error) (simp add: py_index_Inl)
  moreover have "map_err (py_index ?bls) chps \<noteq> Inr ys" for ys
  proof
    assume "map_err (py_index ?bls) chps = Inr ys"
    from map_err_set(2)[OF this c(1)] c(2) show False by (auto simp: py_index_Inl dest: py_index_Inr)
  qed
  ultimately have "map_err (py_index ?bls) chps = Inl ValueError" by blast
  then show ?thesis using nd by (simp add: feed_select_def sf cp bind_err_def)
qed

text \<open>
  The lookup of \<open>feed_select\<close>. When the feeds, their channel pairs and their channels
  are found and every channel pair is in the baseline order in some orientation, the
  selection holds one index for each channel pair, sorted and without duplicates: the
  index for the channel pair \<open>{a, b}\<close> is the first position of the baseline order that
  holds \<open>(a, b)\<close> or \<open>(b, a)\<close>.
\<close>

lemma feed_select_first_match:
  assumes nd: "\<not> (sel = Tuple [Some 0, None] \<and> corr = ''all'')"
    and sf: "select_feeds fno sel = Inr feeds"
    and cp: "channel_pairs fno chn feeds corr = Inr chps"
    and cs: "map_err (feed_channels fno chn) feeds = Inr chsel"
    and al: "\<forall>c \<in> set chps. c \<in> set (map (\<lambda>(a, b). {a, b}) blo)"
  shows "\<exists>inds. feed_select fno chn blo sel corr
             = Inr (Some \<lparr>baseline_select = sort (remdups inds), feed_sel = feeds,
                          channel_sel = chsel\<rparr>)
          \<and> length inds = length chps
          \<and> (\<forall>n < length chps.
                (\<exists>a b. chps ! n = {a, b})
              \<and> (\<forall>a b. chps ! n = {a, b} \<longrightarrow> either_at blo (a, b) (inds ! n)))"
proof -
  let ?bls = "map (\<lambda>(a, b). {a, b}) blo"
  have "\<forall>c \<in> set chps. \<exists>r. py_index ?bls c = Inr r"
    using al py_index_mem by fast
  then obtain g where g: "\<And>c. c \<in> set chps \<Longrightarrow> py_index ?bls c = Inr (g c)"
    by metis
  have me: "map_err (py_index ?bls) chps = Inr (map g chps)"
    by (rule map_err_total) (rule g)
  have fs: "feed_select fno chn blo sel corr
             = Inr (Some \<lparr>baseline_select = sort (remdups (map g chps)), feed_sel = feeds,
                          channel_sel = chsel\<rparr>)"
    using nd by (simp add: feed_select_def sf cp cs me bind_err_def)
  have each: "(\<exists>a b. chps ! n = {a, b})
              \<and> (\<forall>a b. chps ! n = {a, b} \<longrightarrow> either_at blo (a, b) (map g chps ! n))"
    if n: "n < length chps" for n
  proof -
    have i: "py_index ?bls (chps ! n) = Inr (g (chps ! n))" using g n by simp
    from py_index_Inr[OF i] have "g (chps ! n) < length blo" "?bls ! g (chps ! n) = chps ! n"
      by simp_all
    then have "(case blo ! g (chps ! n) of (a, b) \<Rightarrow> {a, b}) = chps ! n" by simp
    then have ex: "\<exists>a b. chps ! n = {a, b}" by (cases "blo ! g (chps ! n)") auto
    have "either_at blo (a, b) (map g chps ! n)" if "chps ! n = {a, b}" for a b
      using py_index_sets_Inr[of blo a b "g (chps ! n)"] i that n by simp
    with ex show ?thesis by blast
  qed
  show ?thesis
    by (rule exI[of _ "map g chps"]) (use fs each in simp)
qed

text \<open>
  \<open>feed_select\<close> reads the baseline order as a list of unordered pairs: two baseline
  orders that differ in the orientation of their entries only give the same selection.
\<close>

lemma feed_select_unordered:
  assumes "map (\<lambda>(a, b). {a, b}) blo' = map (\<lambda>(a, b). {a, b}) blo"
  shows "feed_select fno chn blo' sel corr = feed_select fno chn blo sel corr"
  using assms by (simp add: feed_select_def)

text \<open>
  Claim C3, as amended. In the separation every channel pair is looked up in forward
  orientation first; when it is absent its reverse is looked up and the flag is set.
  When \<open>separate_pol_and_bl\<close> returns, every slot of the new arrays is gathered from the
  baseline index resolved in that way, the first position of the pair, or of the
  reversed pair when the pair itself is absent; the visibility is conjugated exactly
  when the flag is set and the mask never is. When a channel pair of some slot is in the
  baseline order in neither orientation, \<open>separate_pol_and_bl\<close> fails with ValueError
  (the specification's PairNotFound). In the feed selection a channel pair is a set:
  when every channel pair is in the baseline order in some orientation, \<open>feed_select\<close>
  selects for each of them the first entry of the baseline order that holds the pair in
  either orientation; there is no flag and no conjugation, the selection is the same
  for two baseline orders that differ in the orientation of their entries only; and when
  some channel pair is in the baseline order in neither orientation, \<open>feed_select\<close>
  fails with ValueError.
\<close>

theorem pair_resolution:
  "(separate_pol_and_bl self keep_dist_axis = Inr (ts, self') \<longrightarrow>
     (\<exists>xchans ychans.
        chans_of_feeds (sort (feedno self)) (channo self) fst = Inr xchans
      \<and> chans_of_feeds (sort (feedno self)) (channo self) snd = Inr ychans
      \<and> len0 (ts_vis ts) = dim0 (vis self) \<and> len1 (ts_vis ts) = dim1 (vis self)
      \<and> len0 (ts_vis_mask ts) = dim0 (vis_mask self)
      \<and> len1 (ts_vis_mask ts) = dim1 (vis_mask self)
      \<and> len2 (ts_vis ts) = 4 \<and> len2 (ts_vis_mask ts) = 4
      \<and> len3 (ts_vis ts) = length (upper_pairs (length (feedno self)))
      \<and> len3 (ts_vis_mask ts) = length (upper_pairs (length (feedno self)))
      \<and> (\<forall>k < length (upper_pairs (length (feedno self))). \<forall>p < 4.
           (let (i, j) = upper_pairs (length (feedno self)) ! k;
                chp = slot_pair p xchans ychans i j
            in \<exists>cj b.
                 get_ind (blorder self) (map (\<lambda>(a, b). (b, a)) (blorder self)) chp = Inr (cj, b)
               \<and> (cj \<longleftrightarrow> chp \<notin> set (blorder self))
               \<and> b < length (blorder self)
               \<and> blorder self ! b = (if cj then (snd chp, fst chp) else chp)
               \<and> (\<forall>b' < b. blorder self ! b' \<noteq> (if cj then (snd chp, fst chp) else chp))
               \<and> b < dim2 (vis self) \<and> b < dim2 (vis_mask self)
               \<and> (\<forall>t f. at4 (ts_vis ts) t f p k
                             = (if cj then cnj (at3 (vis self) t f b) else at3 (vis self) t f b)
                       \<and> at4 (ts_vis_mask ts) t f p k = at3 (vis_mask self) t f b)))))
   \<and> (main_data_dist_axis self < 3
        \<and> chans_of_feeds (sort (feedno self)) (channo self) fst = Inr xchans
        \<and> chans_of_feeds (sort (feedno self)) (channo self) snd = Inr ychans
        \<and> p < 4 \<and> (i, j) \<in> set (upper_pairs (length (feedno self)))
        \<and> slot_pair p xchans ychans i j \<notin> set (blorder self)
        \<and> (snd (slot_pair p xchans ychans i j), fst (slot_pair p xchans ychans i j))
             \<notin> set (blorder self)
      \<longrightarrow> separate_pol_and_bl self keep_dist_axis = Inl ValueError)
   \<and> (case get_ind blo (map (\<lambda>(a, b). (b, a)) blo) chp of
        Inr (cj, b) \<Rightarrow> b < length blo \<and> (cj \<longleftrightarrow> chp \<notin> set blo)
                       \<and> blo ! b = (if cj then (snd chp, fst chp) else chp)
                       \<and> (\<forall>b' < b. blo ! b' \<noteq> (if cj then (snd chp, fst chp) else chp))
      | Inl e \<Rightarrow> e = ValueError \<and> chp \<notin> set blo \<and> (snd chp, fst chp) \<notin> set blo)
   \<and> (\<not> (sel = Tuple [Some 0, None] \<and> corr = ''all'')
        \<and> select_feeds fno sel = Inr feeds
        \<and> channel_pairs fno chn feeds corr = Inr chps
        \<and> map_err (feed_channels fno chn) feeds = Inr chsel
        \<and> (\<forall>c \<in> set chps. c \<in> set (map (\<lambda>(a, b). {a, b}) blo))
      \<longrightarrow> (\<exists>inds. feed_select fno chn blo sel corr
                    = Inr (Some \<lparr>baseline_select = sort (remdups inds), feed_sel = feeds,
                                 channel_sel = chsel\<rparr>)
                 \<and> length inds = length chps
                 \<and> (\<forall>n < length chps.
                       (\<exists>a b. chps ! n = {a, b})
                     \<and> (\<forall>a b. chps ! n = {a, b} \<longrightarrow> either_at blo (a, b) (inds ! n)))))
   \<and> (map (\<lambda>(a, b). {a, b}) blo' = map (\<lambda>(a, b). {a, b}) blo
      \<longrightarrow> feed_select fno chn blo' sel corr = feed_select fno chn blo sel corr)
   \<and> (\<not> (sel = Tuple [Some 0, None] \<and> corr = ''all'')
        \<and> select_feeds fno sel = Inr feeds
        \<and> channel_pairs fno chn feeds corr = Inr chps
        \<and> c \<in> set chps \<and> c \<notin> set (map (\<lambda>(a, b). {a, b}) blo)
      \<longrightarrow> feed_select fno chn blo sel corr = Inl ValueError)
   \<and> (case py_index (map (\<lambda>(a, b). {a, b}) blo) {a, b} of
        Inr n \<Rightarrow> either_at blo (a, b) n
      | Inl e \<Rightarrow> e = ValueError \<and> (a, b) \<notin> set blo \<and> (b, a) \<notin> set blo)"
proof -
  have s1: "separate_pol_and_bl self keep_dist_axis = Inr (ts, self') \<longrightarrow>
     (\<exists>xchans ychans.
        chans_of_feeds (sort (feedno self)) (channo self) fst = Inr xchans
      \<and> chans_of_feeds (sort (feedno self)) (channo self) snd = Inr ychans
      \<and> len0 (ts_vis ts) = dim0 (vis self) \<and> len1 (ts_vis ts) = dim1 (vis self)
      \<and> len0 (ts_vis_mask ts) = dim0 (vis_mask self)
      \<and> len1 (ts_vis_mask ts) = dim1 (vis_mask self)
      \<and> len2 (ts_vis ts) = 4 \<and> len2 (ts_vis_mask ts) = 4
      \<and> len3 (ts_vis ts) = length (upper_pairs (length (feedno self)))
      \<and> len3 (ts_vis_mask ts) = length (upper_pairs (length (feedno self)))
      \<and> (\<forall>k < length (upper_pairs (length (feedno self))). \<forall>p < 4.
           (let (i, j) = upper_pairs (length (feedno self)) ! k;
                chp = slot_pair p xchans ychans i j
            in \<exists>cj b.
                 get_ind (blorder self) (map (\<lambda>(a, b). (b, a)) (blorder self)) chp = Inr (cj, b)
               \<and> (cj \<longleftrightarrow> chp \<notin> set (blorder self))
               \<and> b < length (blorder self)
               \<and> blorder self ! b = (if cj then (snd chp, fst chp) else chp)
               \<and> (\<forall>b' < b. blorder self ! b' \<noteq> (if cj then (snd chp, fst chp) else chp))
               \<and> b < dim2 (vis self) \<and> b < dim2 (vis_mask self)
               \<and> (\<forall>t f. at4 (ts_vis ts) t f p k
                             = (if cj then cnj (at3 (vis self) t f b) else at3 (vis self) t f b)
                       \<and> at4 (ts_vis_mask ts) t f p k = at3 (vis_mask self) t f b))))"
    by (rule impI) (rule separation_gathers)
  have s2: "main_data_dist_axis self < 3
        \<and> chans_of_feeds (sort (feedno self)) (channo self) fst = Inr xchans
        \<and> chans_of_feeds (sort (feedno self)) (channo self) snd = Inr ychans
        \<and> p < 4 \<and> (i, j) \<in> set (upper_pairs (length (feedno self)))
        \<and> slot_pair p xchans ychans i j \<notin> set (blorder self)
        \<and> (snd (slot_pair p xchans ychans i j), fst (slot_pair p xchans ychans i j))
             \<notin> set (blorder self)
      \<longrightarrow> separate_pol_and_bl self keep_dist_axis = Inl ValueError"
  proof
    assume h: "main_data_dist_axis self < 3
        \<and> chans_of_feeds (sort (feedno self)) (channo self) fst = Inr xchans
        \<and> chans_of_feeds (sort (feedno self)) (channo self) snd = Inr ychans
        \<and> p < 4 \<and> (i, j) \<in> set (upper_pairs (length (feedno self)))
        \<and> slot_pair p xchans ychans i j \<notin> set (blorder self)
        \<and> (snd (slot_pair p xchans ychans i j), fst (slot_pair p xchans ychans i j))
             \<notin> set (blorder self)"
    let ?s = "self\<lparr>main_data_dist_axis :=
                (if main_data_dist_axis self = 2 then 0 else main_data_dist_axis self)\<rparr>"
    have "separate_data ?s = Inl ValueError"
      by (rule separate_data_missing_pair[of ?s xchans ychans p i j]) (use h in simp_all)
    then show "separate_pol_and_bl self keep_dist_axis = Inl ValueError"
      using h by (simp add: separate_pol_and_bl_unfold)
  qed
  have g: "case get_ind blo (map (\<lambda>(a, b). (b, a)) blo) chp of
        Inr (cj, b) \<Rightarrow> b < length blo \<and> (cj \<longleftrightarrow> chp \<notin> set blo)
                       \<and> blo ! b = (if cj then (snd chp, fst chp) else chp)
                       \<and> (\<forall>b' < b. blo ! b' \<noteq> (if cj then (snd chp, fst chp) else chp))
      | Inl e \<Rightarrow> e = ValueError \<and> chp \<notin> set blo \<and> (snd chp, fst chp) \<notin> set blo"
  proof (cases "get_ind blo (map (\<lambda>(a, b). (b, a)) blo) chp")
    case (Inl e)
    have "e = ValueError \<and> chp \<notin> set blo \<and> (snd chp, fst chp) \<notin> set blo"
      using Inl get_ind_Inl[of blo chp e] by blast
    then show ?thesis unfolding Inl by simp
  next
    case (Inr r)
    obtain cj b where r: "r = (cj, b)" by (cases r)
    show ?thesis
      unfolding Inr r sum.case prod.case by (rule get_ind_Inr[OF Inr[unfolded r]])
  qed
  have f1: "\<not> (sel = Tuple [Some 0, None] \<and> corr = ''all'')
        \<and> select_feeds fno sel = Inr feeds
        \<and> channel_pairs fno chn feeds corr = Inr chps
        \<and> map_err (feed_channels fno chn) feeds = Inr chsel
        \<and> (\<forall>c \<in> set chps. c \<in> set (map (\<lambda>(a, b). {a, b}) blo))
      \<longrightarrow> (\<exists>inds. feed_select fno chn blo sel corr
                    = Inr (Some \<lparr>baseline_select = sort (remdups inds), feed_sel = feeds,
                                 channel_sel = chsel\<rparr>)
                 \<and> length inds = length chps
                 \<and> (\<forall>n < length chps.
                       (\<exists>a b. chps ! n = {a, b})
                     \<and> (\<forall>a b. chps ! n = {a, b} \<longrightarrow> either_at blo (a, b) (inds ! n))))"
    using feed_select_first_match[of sel corr fno feeds chn chps chsel blo] by blast
  have f2: "map (\<lambda>(a, b). {a, b}) blo' = map (\<lambda>(a, b). {a, b}) blo
      \<longrightarrow> feed_select fno chn blo' sel corr = feed_select fno chn blo sel corr"
    by (rule impI) (rule feed_select_unordered)
  have f3: "\<not> (sel = Tuple [Some 0, None] \<and> corr = ''all'')
        \<and> select_feeds fno sel = Inr feeds
        \<and> channel_pairs fno chn feeds corr = Inr chps
        \<and> c \<in> set chps \<and> c \<notin> set (map (\<lambda>(a, b). {a, b}) blo)
      \<longrightarrow> feed_select fno chn blo sel corr = Inl ValueError"
    using feed_select_missing_pair[of sel corr fno feeds chn chps c blo] by blast
  have pi: "case py_index (map (\<lambda>(a, b). {a, b}) blo) {a, b} of
        Inr n \<Rightarrow> either_at blo (a, b) n
      | Inl e \<Rightarrow> e = ValueError \<and> (a, b) \<notin> set blo \<and> (b, a) \<notin> set blo"
  proof (cases "py_index (map (\<lambda>(a, b). {a, b}) blo) {a, b}")
    case (Inl e)
    have "e = ValueError \<and> (a, b) \<notin> set blo \<and> (b, a) \<notin> set blo"
      using Inl py_index_sets_Inl[of blo a b e] by blast
    then show ?thesis unfolding Inl by simp
  next
    case (Inr n)
    from py_index_sets_Inr[OF Inr] show ?thesis unfolding Inr by simp
  qed
  from s1 s2 g f1 f2 f3 pi show ?thesis by (intro conjI)
qed

text \<open>
  Claim C3 as stated fails for the feed selection. With the baseline order
  (2, 0), (0, 2), (0, 3), (1, 2), (1, 3) the pair (0, 2) is present in forward
  orientation at position 1, and \<open>feed_select\<close> selects position 0, the reversed
  entry, and not position 1. With (2, 0) alone for that pair, where the forward-first
  lookup sets the conjugation flag, \<open>feed_select\<close> leaves in the container exactly
  what it leaves with (0, 2) in its place.
\<close>

theorem feed_select_lookup_counterexample:
  "get_ind [(2, 0), (0, 2), (0, 3), (1, 2), (1, 3)]
     (map (\<lambda>(a, b). (b, a)) [(2, 0), (0, 2), (0, 3), (1, 2), (1, 3)]) (0, 2) = Inr (False, 1) \<and>
   feed_select [1, 2] [(0, 1), (2, 3)] [(2, 0), (0, 2), (0, 3), (1, 2), (1, 3)] (List [1, 2]) ''cross''
     = Inr (Some \<lparr>baseline_select = [0, 2, 3, 4], feed_sel = [1, 2],
                  channel_sel = [(0, 1), (2, 3)]\<rparr>) \<and>
   get_ind [(2, 0), (0, 3), (1, 2), (1, 3)]
     (map (\<lambda>(a, b). (b, a)) [(2, 0), (0, 3), (1, 2), (1, 3)]) (0, 2) = Inr (True, 0) \<and>
   feed_select [1, 2] [(0, 1), (2, 3)] [(2, 0), (0, 3), (1, 2), (1, 3)] (List [1, 2]) ''cross''
     = Inr (Some \<lparr>baseline_select = [0, 1, 2, 3], feed_sel = [1, 2],
                  channel_sel = [(0, 1), (2, 3)]\<rparr>) \<and>
   get_ind [(0, 2), (0, 3), (1, 2), (1, 3)]
     (map (\<lambda>(a, b). (b, a)) [(0, 2), (0, 3), (1, 2), (1, 3)]) (0, 2) = Inr (False, 0) \<and>
   feed_select [1, 2] [(0, 1), (2, 3)] [(0, 2), (0, 3), (1, 2), (1, 3)] (List [1, 2]) ''cross''
     = Inr (Some \<lparr>baseline_select = [0, 1, 2, 3], feed_sel = [1, 2],
                  channel_sel = [(0, 1), (2, 3)]\<rparr>)"
  by code_simp

theorem pair_resolution_witness:
  "(\<exists>ts self'. separate_pol_and_bl rt0 False = Inr (ts, self')
       \<and> get_ind (blorder rt0) (map (\<lambda>(a, b). (b, a)) (blorder rt0)) (1, 0) = Inr (True, 1)
       \<and> at3 (vis rt0) 0 1 1 = Complex 11 2
       \<and> at4 (ts_vis ts) 0 1 3 0 = Complex 11 (- 2)
       \<and> at4 (ts_vis_mask ts) 0 1 3 0 = at3 (vis_mask rt0) 0 1 1)
   \<and> separate_pol_and_bl (rt0\<lparr>blorder := [(0, 0)]\<rparr>) True = Inl ValueError
   \<and> get_ind [(2, 0)] (map (\<lambda>(a, b). (b, a)) [(2, 0)]) (0, 2) = Inr (True, 0)
   \<and> get_ind [(2, 0)] (map (\<lambda>(a, b). (b, a)) [(2, 0)]) (0, 3) = Inl ValueError
   \<and> (\<exists>inds. feed_select scenario_feedno scenario_channo scenario_blorder (List [1, 2]) ''cross''
                = Inr (Some \<lparr>baseline_select = sort (remdups inds), feed_sel = [1, 2],
                             channel_sel = [(0, 1), (2, 3)]\<rparr>)
           \<and> either_at scenario_blorder (1, 2) (inds ! 2))
   \<and> feed_select [1, 2] [(0, 1), (2, 3)] [(2, 0), (0, 3), (1, 2), (1, 3)] (List [1, 2]) ''cross''
       = feed_select [1, 2] [(0, 1), (2, 3)] [(0, 2), (0, 3), (1, 2), (1, 3)] (List [1, 2]) ''cross''
   \<and> py_index (map (\<lambda>(a, b). {a, b}) scenario_blorder) {1, 2} = Inr 15
   \<and> either_at scenario_blorder (1, 2) 15
   \<and> feed_select scenario_feedno scenario_channo [(0, 0)] (List [1, 2]) ''cross'' = Inl ValueError"
proof -
  obtain ts where ts: "separate_data (rt0\<lparr>main_data_dist_axis := 0\<rparr>) = Inr ts"
    using rt0_separates by blast
  have d: "main_data_dist_axis rt0 = 2" by (simp add: rt0_def)
  have s: "separate_pol_and_bl rt0 False = Inr (ts, rt0\<lparr>main_data_dist_axis := 0\<rparr>)"
    using ts by (simp add: separate_pol_and_bl_unfold d)
  have cx: "chans_of_feeds (sort (feedno rt0)) (channo rt0) fst = Inr [0, 2]"
    and cy: "chans_of_feeds (sort (feedno rt0)) (channo rt0) snd = Inr [1, 3]"
    by code_simp+
  have u: "0 < length (upper_pairs (length (feedno rt0)))"
    "upper_pairs (length (feedno rt0)) ! 0 = (0, 0)"
    by code_simp+
  have sp: "slot_pair 3 [0, 2] [1, 3] 0 0 = (1, 0)" by code_simp
  have g0: "get_ind (blorder rt0) (map (\<lambda>(a, b). (b, a)) (blorder rt0)) (1, 0) = Inr (True, 1)"
    by code_simp
  have v: "at3 (vis rt0) 0 1 1 = Complex 11 2" by (simp add: rt0_def)
  note t1 = pair_resolution[where self = rt0 and keep_dist_axis = False and ts = ts
      and self' = "rt0\<lparr>main_data_dist_axis := 0\<rparr>", THEN conjunct1, THEN mp, OF s]
  from t1 cx cy obtain
    a: "\<forall>k < length (upper_pairs (length (feedno rt0))). \<forall>p < 4.
         (let (i, j) = upper_pairs (length (feedno rt0)) ! k;
              chp = slot_pair p [0, 2] [1, 3] i j
          in \<exists>cj b.
               get_ind (blorder rt0) (map (\<lambda>(a, b). (b, a)) (blorder rt0)) chp = Inr (cj, b)
             \<and> (cj \<longleftrightarrow> chp \<notin> set (blorder rt0))
             \<and> b < length (blorder rt0)
             \<and> blorder rt0 ! b = (if cj then (snd chp, fst chp) else chp)
             \<and> (\<forall>b' < b. blorder rt0 ! b' \<noteq> (if cj then (snd chp, fst chp) else chp))
             \<and> b < dim2 (vis rt0) \<and> b < dim2 (vis_mask rt0)
             \<and> (\<forall>t f. at4 (ts_vis ts) t f p k
                           = (if cj then cnj (at3 (vis rt0) t f b) else at3 (vis rt0) t f b)
                     \<and> at4 (ts_vis_mask ts) t f p k = at3 (vis_mask rt0) t f b))"
    by auto
  have p: "(3::nat) < 4" by simp
  from a[rule_format, OF u(1) p] have
    "\<forall>t f. at4 (ts_vis ts) t f 3 0 = cnj (at3 (vis rt0) t f 1)
          \<and> at4 (ts_vis_mask ts) t f 3 0 = at3 (vis_mask rt0) t f 1"
    unfolding u(2) Let_def prod.case sp g0 by auto
  then have "at4 (ts_vis ts) 0 1 3 0 = cnj (at3 (vis rt0) 0 1 1)"
    "at4 (ts_vis_mask ts) 0 1 3 0 = at3 (vis_mask rt0) 0 1 1" by blast+
  with v have "at4 (ts_vis ts) 0 1 3 0 = Complex 11 (- 2)"
    "at4 (ts_vis_mask ts) 0 1 3 0 = at3 (vis_mask rt0) 0 1 1"
    by (simp_all add: complex_eq_iff)
  with s g0 v have c1: "\<exists>ts self'. separate_pol_and_bl rt0 False = Inr (ts, self')
       \<and> get_ind (blorder rt0) (map (\<lambda>(a, b). (b, a)) (blorder rt0)) (1, 0) = Inr (True, 1)
       \<and> at3 (vis rt0) 0 1 1 = Complex 11 2
       \<and> at4 (ts_vis ts) 0 1 3 0 = Complex 11 (- 2)
       \<and> at4 (ts_vis_mask ts) 0 1 3 0 = at3 (vis_mask rt0) 0 1 1"
    by blast
  let ?s = "rt0\<lparr>blorder := [(0, 0)]\<rparr>"
  have sh: "main_data_dist_axis ?s < 3
        \<and> chans_of_feeds (sort (feedno ?s)) (channo ?s) fst = Inr [0, 2]
        \<and> chans_of_feeds (sort (feedno ?s)) (channo ?s) snd = Inr [1, 3]
        \<and> (0::nat) < 4 \<and> (0, 1) \<in> set (upper_pairs (length (feedno ?s)))
        \<and> slot_pair 0 [0, 2] [1, 3] 0 1 \<notin> set (blorder ?s)
        \<and> (snd (slot_pair 0 [0, 2] [1, 3] 0 1), fst (slot_pair 0 [0, 2] [1, 3] 0 1))
             \<notin> set (blorder ?s)"
    by code_simp
  have c2: "separate_pol_and_bl ?s True = Inl ValueError"
    by (rule pair_resolution[where self = ?s and xchans = "[0, 2]" and ychans = "[1, 3]"
          and p = 0 and i = 0 and j = 1 and keep_dist_axis = True,
          THEN conjunct2, THEN conjunct1, THEN mp, OF sh])
  have g: "get_ind [(2, 0)] (map (\<lambda>(a, b). (b, a)) [(2, 0)]) (0, 2) = Inr (True, 0)"
    "get_ind [(2, 0)] (map (\<lambda>(a, b). (b, a)) [(2, 0)]) (0, 3) = Inl ValueError"
    "py_index (map (\<lambda>(a, b). {a, b}) scenario_blorder) {1, 2} = Inr 15"
    by code_simp+
  have fh: "\<not> (List [1, 2] = Tuple [Some 0, None] \<and> ''cross'' = ''all'')
        \<and> select_feeds scenario_feedno (List [1, 2]) = Inr [1, 2]
        \<and> channel_pairs scenario_feedno scenario_channo [1, 2] ''cross''
             = Inr [{0, 2}, {0, 3}, {1, 2}, {1, 3}]
        \<and> map_err (feed_channels scenario_feedno scenario_channo) [1, 2] = Inr [(0, 1), (2, 3)]
        \<and> (\<forall>c \<in> set [{0, 2}, {0, 3}, {1, 2}, {1, 3 :: int}].
              c \<in> set (map (\<lambda>(a, b). {a, b}) scenario_blorder))"
    by code_simp
  note t4 = pair_resolution[where blo = scenario_blorder and sel = "List [1, 2]"
      and corr = "''cross''" and fno = scenario_feedno and feeds = "[1, 2]"
      and chn = scenario_channo and chps = "[{0, 2}, {0, 3}, {1, 2}, {1, 3}]"
      and chsel = "[(0, 1), (2, 3)]",
      THEN conjunct2, THEN conjunct2, THEN conjunct2, THEN conjunct1, THEN mp, OF fh]
  then obtain inds where
    i: "feed_select scenario_feedno scenario_channo scenario_blorder (List [1, 2]) ''cross''
          = Inr (Some \<lparr>baseline_select = sort (remdups inds), feed_sel = [1, 2],
                       channel_sel = [(0, 1), (2, 3)]\<rparr>)"
       "\<forall>n < length [{0, 2}, {0, 3}, {1, 2}, {1, 3 :: int}].
           (\<exists>a b. [{0, 2}, {0, 3}, {1, 2}, {1, 3 :: int}] ! n = {a, b})
         \<and> (\<forall>a b. [{0, 2}, {0, 3}, {1, 2}, {1, 3 :: int}] ! n = {a, b}
                \<longrightarrow> either_at scenario_blorder (a, b) (inds ! n))"
    by (elim exE conjE) blast
  have l: "2 < length [{0, 2}, {0, 3}, {1, 2}, {1, 3 :: int}]" by simp
  have n2: "[{0, 2}, {0, 3}, {1, 2}, {1, 3 :: int}] ! 2 = {1, 2}" by simp
  have "either_at scenario_blorder (1, 2) (inds ! 2)"
    by (rule i(2)[THEN spec, THEN mp, OF l, THEN conjunct2, THEN spec, THEN spec, THEN mp, OF n2])
  with i(1) have c5: "\<exists>inds. feed_select scenario_feedno scenario_channo scenario_blorder
                  (List [1, 2]) ''cross''
                = Inr (Some \<lparr>baseline_select = sort (remdups inds), feed_sel = [1, 2],
                             channel_sel = [(0, 1), (2, 3)]\<rparr>)
           \<and> either_at scenario_blorder (1, 2) (inds ! 2)"
    by blast
  have oh: "map (\<lambda>(a, b). {a, b}) [(2, 0), (0, 3), (1, 2), (1, 3 :: int)]
              = map (\<lambda>(a, b). {a, b}) [(0, 2), (0, 3), (1, 2), (1, 3)]"
    by code_simp
  have c6: "feed_select [1, 2] [(0, 1), (2, 3)] [(2, 0), (0, 3), (1, 2), (1, 3)] (List [1, 2]) ''cross''
       = feed_select [1, 2] [(0, 1), (2, 3)] [(0, 2), (0, 3), (1, 2), (1, 3)] (List [1, 2]) ''cross''"
    by (rule pair_resolution[where blo' = "[(2, 0), (0, 3), (1, 2), (1, 3)]"
          and blo = "[(0, 2), (0, 3), (1, 2), (1, 3)]",
          THEN conjunct2, THEN conjunct2, THEN conjunct2, THEN conjunct2, THEN conjunct1,
          THEN mp, OF oh])
  have c8: "either_at scenario_blorder (1, 2) 15"
    using pair_resolution[where blo = scenario_blorder and a = 1 and b = 2,
          THEN conjunct2, THEN conjunct2, THEN conjunct2, THEN conjunct2, THEN conjunct2,
          THEN conjunct2] g(3)
    by simp
  have mh: "\<not> (List [1, 2] = Tuple [Some 0, None] \<and> ''cross'' = ''all'')
        \<and> select_feeds scenario_feedno (List [1, 2]) = Inr [1, 2]
        \<and> channel_pairs scenario_feedno scenario_channo [1, 2] ''cross''
             = Inr [{0, 2}, {0, 3}, {1, 2}, {1, 3}]
        \<and> {0, 2} \<in> set [{0, 2}, {0, 3}, {1, 2}, {1, 3 :: int}]
        \<and> {0, 2} \<notin> set (map (\<lambda>(a, b). {a, b}) [(0, 0 :: int)])"
    by code_simp
  have c9: "feed_select scenario_feedno scenario_channo [(0, 0)] (List [1, 2]) ''cross''
              = Inl ValueError"
    by (rule pair_resolution[where blo = "[(0, 0)]" and sel = "List [1, 2]"
          and corr = "''cross''" and fno = scenario_feedno and feeds = "[1, 2]"
          and chn = scenario_channo and chps = "[{0, 2}, {0, 3}, {1, 2}, {1, 3}]"
          and c = "{0, 2}",
          THEN conjunct2, THEN conjunct2, THEN conjunct2, THEN conjunct2, THEN conjunct2,
          THEN conjunct1, THEN mp, OF mh])
  from c1 c2 g(1) g(2) c5 c6 g(3) c8 c9 show ?thesis by (intro conjI)
qed

section \<open>Verified properties: freq_flag.py\<close>

lemma flag_vis: "fst (flag sigma freq_points v m) = v"
  by (simp add: flag_def Let_def)

lemma fold_set_True_length: "length (fold (\<lambda>i m'. m'[i := True]) inds m) = length m"
  by (induction inds arbitrary: m) simp_all

lemma fold_set_True_nth:
  "i < length m \<Longrightarrow> fold (\<lambda>i m'. m'[i := True]) inds m ! i = (m ! i \<or> i \<in> set inds)"
proof (induction inds arbitrary: m)
  case Nil
  show ?case by simp
next
  case (Cons j inds)
  have "fold (\<lambda>i m'. m'[i := True]) inds (m[j := True]) ! i
          = (m[j := True] ! i \<or> i \<in> set inds)"
    using Cons.IH[of "m[j := True]"] Cons.prems by simp
  moreover have "m[j := True] ! i = (m ! i \<or> i = j)"
    using Cons.prems by (cases "i = j") simp_all
  ultimately show ?case by auto
qed

lemma flag_mask_length: "length (snd (flag sigma freq_points v m)) = length m"
  by (simp add: flag_def Let_def fold_set_True_length)

lemma flag_mask_mono:
  "i < length m \<Longrightarrow> m ! i \<Longrightarrow> snd (flag sigma freq_points v m) ! i"
  by (simp add: flag_def Let_def fold_set_True_nth)

lemma count_unmasked:
  "length xs = length ms \<Longrightarrow>
     length (map fst (filter (\<lambda>(x, msk). \<not> msk) (zip xs ms))) = length (filter Not ms)"
  by (induction xs ms rule: list_induct2) simp_all

lemma flag_few_valid:
  assumes "length v = length m" and "int (length (filter Not m)) < freq_points"
  shows "flag sigma freq_points v m = (v, m)"
  using assms count_unmasked[of "map cmod v" m] by (simp add: flag_def Let_def)

lemma column3_nth: "f < dim1 a \<Longrightarrow> column3 a t b ! f = at3 a t f b"
  by (simp add: column3_def)

lemma column4_nth: "f < len1 a \<Longrightarrow> column4 a t p b ! f = at4 a t f p b"
  by (simp add: column4_def)

lemma operate3_vis: "vis (time_and_bl_data_operate (flag sigma freq_points) rt) = vis rt"
proof -
  have "(\<lambda>t f b. if inside3 (vis rt) t f b
                  then fst (flag sigma freq_points (column3 (vis rt) t b) (column3 (vis_mask rt) t b)) ! f
                  else at3 (vis rt) t f b) = at3 (vis rt)"
    by (intro ext) (simp add: flag_vis inside3_def column3_nth)
  then show ?thesis by (simp add: time_and_bl_data_operate_def)
qed

lemma operate4_vis: "ts_vis (time_pol_and_bl_data_operate (flag sigma freq_points) ts) = ts_vis ts"
proof -
  have "(\<lambda>t f p b. if inside4 (ts_vis ts) t f p b
                  then fst (flag sigma freq_points (column4 (ts_vis ts) t p b)
                             (column4 (ts_vis_mask ts) t p b)) ! f
                  else at4 (ts_vis ts) t f p b) = at4 (ts_vis ts)"
    by (intro ext) (simp add: flag_vis inside4_def column4_nth)
  then show ?thesis by (simp add: time_pol_and_bl_data_operate_def)
qed

lemma operate3_mask:
  "at3 (vis_mask rt) t f b \<Longrightarrow>
     at3 (vis_mask (time_and_bl_data_operate (flag sigma freq_points) rt)) t f b"
  by (simp add: time_and_bl_data_operate_def inside3_def flag_mask_mono column3_nth)
     (simp add: column3_def flag_mask_mono)

lemma operate4_mask:
  "at4 (ts_vis_mask ts) t f p b \<Longrightarrow>
     at4 (ts_vis_mask (time_pol_and_bl_data_operate (flag sigma freq_points) ts)) t f p b"
  by (simp add: time_pol_and_bl_data_operate_def inside4_def)
     (simp add: column4_def flag_mask_mono)

lemma process_skip:
  "int (nfreq c) < freq_points \<Longrightarrow>
     process sigma freq_points c = Inr (c, [''Not enough frequency points to do the flag''])"
  by (simp add: process_def)

lemma process_Raw:
  "freq_points \<le> int (nfreq (Raw rt)) \<Longrightarrow>
     process sigma freq_points (Raw rt)
       = Inr (Raw (time_and_bl_data_operate (flag sigma freq_points)
                     (rt\<lparr>main_data_dist_axis := 0\<rparr>)), [])"
  by (simp add: process_def redistribute_time_def redistribute_def main_data_axes_def bind_err_def)

lemma process_Separated:
  "freq_points \<le> int (nfreq (Separated ts)) \<Longrightarrow>
     process sigma freq_points (Separated ts)
       = Inr (Separated (time_pol_and_bl_data_operate (flag sigma freq_points)
                     (ts\<lparr>ts_dist_axis := 0\<rparr>)), [])"
  by (simp add: process_def redistribute_time_def bind_err_def)

text \<open>
  Claim C6. For every container that the flagging stage processes, raw or separated,
  the stage returns a container of the same kind in which every visibility is what it
  was, the mask has the shape it had, and every mask entry that was true is true:
  entries only ever change from false to true.
\<close>

theorem flag_only_sets_mask:
  "(process sigma freq_points (Raw rt) = Inr (c', w) \<longrightarrow>
      (\<exists>rt'. c' = Raw rt' \<and> vis rt' = vis rt
         \<and> dim0 (vis_mask rt') = dim0 (vis_mask rt) \<and> dim1 (vis_mask rt') = dim1 (vis_mask rt)
         \<and> dim2 (vis_mask rt') = dim2 (vis_mask rt)
         \<and> (\<forall>t f b. at3 (vis_mask rt) t f b \<longrightarrow> at3 (vis_mask rt') t f b)))
   \<and> (process sigma freq_points (Separated ts) = Inr (c'', w') \<longrightarrow>
      (\<exists>ts'. c'' = Separated ts' \<and> ts_vis ts' = ts_vis ts
         \<and> len0 (ts_vis_mask ts') = len0 (ts_vis_mask ts)
         \<and> len1 (ts_vis_mask ts') = len1 (ts_vis_mask ts)
         \<and> len2 (ts_vis_mask ts') = len2 (ts_vis_mask ts)
         \<and> len3 (ts_vis_mask ts') = len3 (ts_vis_mask ts)
         \<and> (\<forall>t f p b. at4 (ts_vis_mask ts) t f p b \<longrightarrow> at4 (ts_vis_mask ts') t f p b)))"
proof (intro conjI impI)
  assume p: "process sigma freq_points (Raw rt) = Inr (c', w)"
  show "\<exists>rt'. c' = Raw rt' \<and> vis rt' = vis rt
         \<and> dim0 (vis_mask rt') = dim0 (vis_mask rt) \<and> dim1 (vis_mask rt') = dim1 (vis_mask rt)
         \<and> dim2 (vis_mask rt') = dim2 (vis_mask rt)
         \<and> (\<forall>t f b. at3 (vis_mask rt) t f b \<longrightarrow> at3 (vis_mask rt') t f b)"
  proof (cases "int (nfreq (Raw rt)) < freq_points")
    case True
    with p have "c' = Raw rt" by (simp add: process_skip)
    then show ?thesis by simp
  next
    case False
    let ?r = "rt\<lparr>main_data_dist_axis := 0\<rparr>"
    let ?rt' = "time_and_bl_data_operate (flag sigma freq_points) ?r"
    from False p have c: "c' = Raw ?rt'" by (simp add: process_Raw)
    have v: "vis ?rt' = vis rt" by (simp add: operate3_vis)
    have d: "dim0 (vis_mask ?rt') = dim0 (vis_mask rt)" "dim1 (vis_mask ?rt') = dim1 (vis_mask rt)"
      "dim2 (vis_mask ?rt') = dim2 (vis_mask rt)"
      by (simp_all add: time_and_bl_data_operate_def)
    have m: "at3 (vis_mask rt) t f b \<longrightarrow> at3 (vis_mask ?rt') t f b" for t f b
      using operate3_mask[of ?r t f b sigma freq_points] by simp
    from c v d m show ?thesis by blast
  qed
next
  assume p: "process sigma freq_points (Separated ts) = Inr (c'', w')"
  show "\<exists>ts'. c'' = Separated ts' \<and> ts_vis ts' = ts_vis ts
         \<and> len0 (ts_vis_mask ts') = len0 (ts_vis_mask ts)
         \<and> len1 (ts_vis_mask ts') = len1 (ts_vis_mask ts)
         \<and> len2 (ts_vis_mask ts') = len2 (ts_vis_mask ts)
         \<and> len3 (ts_vis_mask ts') = len3 (ts_vis_mask ts)
         \<and> (\<forall>t f p b. at4 (ts_vis_mask ts) t f p b \<longrightarrow> at4 (ts_vis_mask ts') t f p b)"
  proof (cases "int (nfreq (Separated ts)) < freq_points")
    case True
    with p have "c'' = Separated ts" by (simp add: process_skip)
    then show ?thesis by simp
  next
    case False
    let ?r = "ts\<lparr>ts_dist_axis := 0\<rparr>"
    let ?ts' = "time_pol_and_bl_data_operate (flag sigma freq_points) ?r"
    from False p have c: "c'' = Separated ?ts'" by (simp add: process_Separated)
    have v: "ts_vis ?ts' = ts_vis ts" by (simp add: operate4_vis)
    have d: "len0 (ts_vis_mask ?ts') = len0 (ts_vis_mask ts)"
      "len1 (ts_vis_mask ?ts') = len1 (ts_vis_mask ts)"
      "len2 (ts_vis_mask ?ts') = len2 (ts_vis_mask ts)"
      "len3 (ts_vis_mask ?ts') = len3 (ts_vis_mask ts)"
      by (simp_all add: time_pol_and_bl_data_operate_def)
    have m: "at4 (ts_vis_mask ts) t f p b \<longrightarrow> at4 (ts_vis_mask ?ts') t f p b" for t f p b
      using operate4_mask[of ?r t f p b sigma freq_points] by simp
    from c v d m show ?thesis by blast
  qed
qed

lemma column_valid3:
  "length (filter Not (column3 m t b)) = valid_count3 m t b"
  by (simp add: column3_def valid_count3_def filter_map comp_def)

lemma column_valid4:
  "length (filter Not (column4 m t p b)) = valid_count4 m t p b"
  by (simp add: column4_def valid_count4_def filter_map comp_def)

text \<open>
  Claim C7. If the global length of the frequency axis is below \<open>freq_points\<close>, the
  stage returns the container as it received it, so the mask is unmodified, together
  with one warning, and does not fail. When the stage runs on a container whose mask
  has the frequency extent of its main data, every (time, baseline) column, for a
  separated container every (time, polarization, baseline) column, that has fewer than
  \<open>freq_points\<close> unmasked samples keeps its mask. The witness is the scenario of the
  specification, a frequency axis of length 5 with \<open>freq_points = 10\<close>.
\<close>

theorem flag_stage_skips:
  "(int (nfreq c) < freq_points \<longrightarrow>
      process sigma freq_points c = Inr (c, [''Not enough frequency points to do the flag'']))
   \<and> (process sigma freq_points (Raw rt) = Inr (Raw rt', w)
        \<and> dim1 (vis rt) = dim1 (vis_mask rt)
        \<and> int (valid_count3 (vis_mask rt) t b) < freq_points
      \<longrightarrow> (\<forall>f. at3 (vis_mask rt') t f b = at3 (vis_mask rt) t f b))
   \<and> (process sigma freq_points (Separated ts) = Inr (Separated ts', w')
        \<and> len1 (ts_vis ts) = len1 (ts_vis_mask ts)
        \<and> int (valid_count4 (ts_vis_mask ts) t p b) < freq_points
      \<longrightarrow> (\<forall>f. at4 (ts_vis_mask ts') t f p b = at4 (ts_vis_mask ts) t f p b))"
proof (intro conjI impI allI)
  assume "int (nfreq c) < freq_points"
  then show "process sigma freq_points c = Inr (c, [''Not enough frequency points to do the flag''])"
    by (rule process_skip)
next
  fix f
  assume h: "process sigma freq_points (Raw rt) = Inr (Raw rt', w)
        \<and> dim1 (vis rt) = dim1 (vis_mask rt)
        \<and> int (valid_count3 (vis_mask rt) t b) < freq_points"
  show "at3 (vis_mask rt') t f b = at3 (vis_mask rt) t f b"
  proof (cases "int (nfreq (Raw rt)) < freq_points")
    case True
    with h show ?thesis by (simp add: process_skip)
  next
    case False
    let ?r = "rt\<lparr>main_data_dist_axis := 0\<rparr>"
    from False h have r: "rt' = time_and_bl_data_operate (flag sigma freq_points) ?r"
      by (simp add: process_Raw)
    have l: "length (column3 (vis rt) t b) = length (column3 (vis_mask rt) t b)"
      using h by (simp add: column3_def)
    have "flag sigma freq_points (column3 (vis rt) t b) (column3 (vis_mask rt) t b)
            = (column3 (vis rt) t b, column3 (vis_mask rt) t b)"
      by (rule flag_few_valid[OF l]) (use h in \<open>simp add: column_valid3\<close>)
    then show ?thesis
      by (simp add: r time_and_bl_data_operate_def inside3_def column3_nth)
  qed
next
  fix f
  assume h: "process sigma freq_points (Separated ts) = Inr (Separated ts', w')
        \<and> len1 (ts_vis ts) = len1 (ts_vis_mask ts)
        \<and> int (valid_count4 (ts_vis_mask ts) t p b) < freq_points"
  show "at4 (ts_vis_mask ts') t f p b = at4 (ts_vis_mask ts) t f p b"
  proof (cases "int (nfreq (Separated ts)) < freq_points")
    case True
    with h show ?thesis by (simp add: process_skip)
  next
    case False
    let ?r = "ts\<lparr>ts_dist_axis := 0\<rparr>"
    from False h have r: "ts' = time_pol_and_bl_data_operate (flag sigma freq_points) ?r"
      by (simp add: process_Separated)
    have l: "length (column4 (ts_vis ts) t p b) = length (column4 (ts_vis_mask ts) t p b)"
      using h by (simp add: column4_def)
    have "flag sigma freq_points (column4 (ts_vis ts) t p b) (column4 (ts_vis_mask ts) t p b)
            = (column4 (ts_vis ts) t p b, column4 (ts_vis_mask ts) t p b)"
      by (rule flag_few_valid[OF l]) (use h in \<open>simp add: column_valid4\<close>)
    then show ?thesis
      by (simp add: r time_pol_and_bl_data_operate_def inside4_def column4_nth)
  qed
qed

lemma rt1_columns:
  "column3 (vis rt1) 0 0 = [0, 0, 0, 0, 5]"
  "column3 (vis_mask rt1) 0 0 = [False, False, False, False, False]"
  "nfreq (Raw rt1) = 5" "valid_count3 (vis_mask rt1) 0 1 = 4"
  "dim1 (vis rt1) = dim1 (vis_mask rt1)"
  by (simp_all add: rt1_def column3_def nfreq_def valid_count3_def upt_rec)

lemma flag_example:
  "flag 1 5 [0, 0, 0, 0, 5] [False, False, False, False, False]
     = ([0, 0, 0, 0, 5], [False, False, False, False, True])"
  by (simp add: flag_def Let_def upt_rec)

theorem flag_only_sets_mask_witness:
  "\<exists>rt' w. process 1 5 (Raw rt1) = Inr (Raw rt', w) \<and> vis rt' = vis rt1
      \<and> at3 (vis_mask rt1) 0 0 1 \<and> at3 (vis_mask rt') 0 0 1
      \<and> \<not> at3 (vis_mask rt1) 0 4 0 \<and> at3 (vis_mask rt') 0 4 0"
proof -
  let ?rt' = "time_and_bl_data_operate (flag 1 5) (rt1\<lparr>main_data_dist_axis := 0\<rparr>)"
  have p: "process 1 5 (Raw rt1) = Inr (Raw ?rt', [])"
    by (rule process_Raw) (simp add: rt1_columns)
  from flag_only_sets_mask[of 1 5 rt1 "Raw ?rt'" "[]"] p
  have v: "vis ?rt' = vis rt1"
    and m: "\<forall>t f b. at3 (vis_mask rt1) t f b \<longrightarrow> at3 (vis_mask ?rt') t f b"
    by auto
  have a: "at3 (vis_mask rt1) 0 0 1" "\<not> at3 (vis_mask rt1) 0 4 0" by (simp_all add: rt1_def)
  have i: "inside3 (vis_mask rt1) 0 4 0" by (simp add: inside3_def rt1_def)
  have f: "at3 (vis_mask ?rt') 0 4 0"
    using i by (simp add: time_and_bl_data_operate_def rt1_columns flag_example)
  from p v m a f show ?thesis by blast
qed

theorem flag_stage_skips_witness:
  "nfreq (Raw rt1) = 5 \<and>
   process 3 10 (Raw rt1) = Inr (Raw rt1, [''Not enough frequency points to do the flag'']) \<and>
   valid_count3 (vis_mask rt1) 0 1 = 4 \<and>
   (\<exists>rt' w. process 1 5 (Raw rt1) = Inr (Raw rt', w)
       \<and> at3 (vis_mask rt') 0 0 1 = at3 (vis_mask rt1) 0 0 1
       \<and> at3 (vis_mask rt') 0 4 1 = at3 (vis_mask rt1) 0 4 1)"
proof -
  let ?rt' = "time_and_bl_data_operate (flag 1 5) (rt1\<lparr>main_data_dist_axis := 0\<rparr>)"
  have p: "process 1 5 (Raw rt1) = Inr (Raw ?rt', [])"
    by (rule process_Raw) (simp add: rt1_columns)
  note t = flag_stage_skips[of "Raw rt1" 10 3]
  have s: "process 3 10 (Raw rt1) = Inr (Raw rt1, [''Not enough frequency points to do the flag''])"
    using t by (simp add: rt1_columns)
  have c: "process 1 5 (Raw rt1) = Inr (Raw ?rt', [])
        \<and> dim1 (vis rt1) = dim1 (vis_mask rt1)
        \<and> int (valid_count3 (vis_mask rt1) 0 1) < 5"
    using p rt1_columns(4,5) by simp
  have "\<forall>f. at3 (vis_mask ?rt') 0 f 1 = at3 (vis_mask rt1) 0 f 1"
    using flag_stage_skips[of "Raw rt1" 5 1 rt1 ?rt' "[]" 0 1] c by blast
  with p s rt1_columns(3,4) show ?thesis by blast
qed

end
